theory Spec2Isabelle
  imports Complex_Main "HOL-Library.Multiset"
begin

section \<open>Strings\<close>

text \<open>
  A JavaScript string is modelled as a list of bytes (its UTF-8 encoding).  The
  character classes and case mapping below are those of the ASCII range; bytes
  above 127 are letters of no case and no white space.
\<close>

definition newline :: char where
  "newline = CHR 0x0A"

definition isUpper :: "char \<Rightarrow> bool" where
  "isUpper c = (65 \<le> (of_char c :: nat) \<and> (of_char c :: nat) \<le> 90)"

definition toLowerChar :: "char \<Rightarrow> char" where
  "toLowerChar c = (if isUpper c then char_of ((of_char c :: nat) + 32) else c)"

definition toLowerCase :: "string \<Rightarrow> string" where
  "toLowerCase s = map toLowerChar s"

text \<open>\<^verbatim>\<open>s.startsWith(p)\<close> and \<^verbatim>\<open>s.includes(p)\<close>.\<close>

definition startsWith :: "string \<Rightarrow> string \<Rightarrow> bool" where
  "startsWith s p = (take (length p) s = p)"

fun str_includes :: "string \<Rightarrow> string \<Rightarrow> bool" where
  "str_includes [] p = (p = [])"
| "str_includes (c # cs) p = (startsWith (c # cs) p \<or> str_includes cs p)"

text \<open>\<^verbatim>\<open>s.split('\n')\<close>: always at least one piece.\<close>

fun split_lines :: "string \<Rightarrow> string list" where
  "split_lines [] = [[]]"
| "split_lines (c # cs) =
     (if c = newline then [] # split_lines cs
      else (case split_lines cs of
              [] \<Rightarrow> [[c]]
            | l # ls \<Rightarrow> (c # l) # ls))"

text \<open>\<^verbatim>\<open>xs.join('\n')\<close>.\<close>

fun join_lines :: "string list \<Rightarrow> string" where
  "join_lines [] = []"
| "join_lines [l] = l"
| "join_lines (l # l' # ls) = l @ newline # join_lines (l' # ls)"

text \<open>\<^verbatim>\<open>xs.slice(a, b)\<close> for \<open>0 \<le> a\<close> and \<open>0 \<le> b\<close>.\<close>

definition slice :: "'a list \<Rightarrow> nat \<Rightarrow> nat \<Rightarrow> 'a list" where
  "slice xs a b = take (b - a) (drop a xs)"

section \<open>Entry splitter\<close>

definition rawCountMarker :: string where
  "rawCountMarker = ''Raw count:''"

text \<open>
  One iteration of the loop of \<^verbatim>\<open>splitIntoEntries\<close> at index \<open>i\<close>; the state is
  the pair of \<^verbatim>\<open>entries\<close> and \<^verbatim>\<open>currentEntry\<close>.  The inner loop pushes the lines
  \<open>max(0, i - 3) .. i\<close>; on \<open>nat\<close> the subtraction \<open>i - 3\<close> already stops at \<open>0\<close>.
\<close>

definition split_step ::
  "string list \<Rightarrow> string list \<times> string list \<Rightarrow> nat \<Rightarrow> string list \<times> string list" where
  "split_step lines st i =
     (let entries = fst st; currentEntry = snd st; line = lines ! i in
      if str_includes line rawCountMarker then
        (if currentEntry \<noteq> [] then entries @ [join_lines currentEntry] else entries,
         slice lines (max 0 (i - 3)) (Suc i))
      else if currentEntry \<noteq> [] then (entries, currentEntry @ [line])
      else (entries, currentEntry))"

definition splitIntoEntries :: "string \<Rightarrow> string list" where
  "splitIntoEntries content =
     (let lines = split_lines content;
          st = foldl (split_step lines) ([], []) [0..<length lines];
          entries = fst st; currentEntry = snd st
      in if currentEntry \<noteq> [] then entries @ [join_lines currentEntry] else entries)"

text \<open>The indices of the marker lines, and each marker paired with where its entry ends:
  the next marker, or the end of the text.\<close>

definition marker_indices :: "string list \<Rightarrow> nat list" where
  "marker_indices lines = filter (\<lambda>i. str_includes (lines ! i) rawCountMarker) [0..<length lines]"

definition entry_bounds :: "string list \<Rightarrow> (nat \<times> nat) list" where
  "entry_bounds lines =
     (let ms = marker_indices lines in zip ms (tl ms @ [length lines]))"

definition entry_text :: "string list \<Rightarrow> nat \<times> nat \<Rightarrow> string" where
  "entry_text lines b = join_lines (slice lines (fst b - 3) (snd b))"

text \<open>The markers among the first \<open>k\<close> lines: what the loop has seen after \<open>k\<close> iterations.\<close>

definition markers_below :: "string list \<Rightarrow> nat \<Rightarrow> nat list" where
  "markers_below lines k = filter (\<lambda>i. str_includes (lines ! i) rawCountMarker) [0..<k]"

section \<open>Numbers, maps and sorting\<close>

text \<open>
  A JavaScript number is modelled as an exact rational; rounding of floating-point
  arithmetic is outside the model.  Where the parser can store \<^verbatim>\<open>NaN\<close> (the result
  of \<^verbatim>\<open>parseFloat\<close> on a numeral such as \<^verbatim>\<open>..5\<close>) the field has type \<open>jsnum\<close>, with
  \<open>None\<close> for \<^verbatim>\<open>NaN\<close>.  The percentage maps never hold \<^verbatim>\<open>NaN\<close>: the parser stores a
  percentage only after the test \<^verbatim>\<open>percentage >= minPercentage\<close>, which fails for it.
\<close>

type_synonym jsnum = "rat option"

definition js_add :: "jsnum \<Rightarrow> jsnum \<Rightarrow> jsnum" where
  "js_add a b = (case a of None \<Rightarrow> None | Some x \<Rightarrow> (case b of None \<Rightarrow> None | Some y \<Rightarrow> Some (x + y)))"

definition js_sub :: "jsnum \<Rightarrow> jsnum \<Rightarrow> jsnum" where
  "js_sub a b = (case a of None \<Rightarrow> None | Some x \<Rightarrow> (case b of None \<Rightarrow> None | Some y \<Rightarrow> Some (x - y)))"

definition js_mul :: "jsnum \<Rightarrow> jsnum \<Rightarrow> jsnum" where
  "js_mul a b = (case a of None \<Rightarrow> None | Some x \<Rightarrow> (case b of None \<Rightarrow> None | Some y \<Rightarrow> Some (x * y)))"

text \<open>Division by a positive count (the length of a list that is not empty).\<close>

definition js_div_count :: "jsnum \<Rightarrow> nat \<Rightarrow> jsnum" where
  "js_div_count a n = (case a of None \<Rightarrow> None | Some x \<Rightarrow> Some (x / of_nat n))"

text \<open>\<^verbatim>\<open>a >= b\<close>, false when either side is \<^verbatim>\<open>NaN\<close>.\<close>

definition js_ge :: "jsnum \<Rightarrow> jsnum \<Rightarrow> bool" where
  "js_ge a b = (case a of None \<Rightarrow> False | Some x \<Rightarrow> (case b of None \<Rightarrow> False | Some y \<Rightarrow> x \<ge> y))"

text \<open>
  A JavaScript \<^verbatim>\<open>Map\<close> is an association list in insertion order: \<^verbatim>\<open>set\<close> on a key
  already present replaces the value in place, \<^verbatim>\<open>set\<close> on a new key appends.  A
  \<^verbatim>\<open>Set\<close> is a list without repetition, in insertion order.
\<close>

definition map_get :: "('k \<times> 'v) list \<Rightarrow> 'k \<Rightarrow> 'v option" where
  "map_get m k = map_of m k"

definition map_has :: "('k \<times> 'v) list \<Rightarrow> 'k \<Rightarrow> bool" where
  "map_has m k = (map_of m k \<noteq> None)"

fun map_set :: "('k \<times> 'v) list \<Rightarrow> 'k \<Rightarrow> 'v \<Rightarrow> ('k \<times> 'v) list" where
  "map_set [] k v = [(k, v)]"
| "map_set (e # m) k v = (if fst e = k then (k, v) # m else e # map_set m k v)"

definition map_keys :: "('k \<times> 'v) list \<Rightarrow> 'k list" where
  "map_keys m = map fst m"

definition map_values :: "('k \<times> 'v) list \<Rightarrow> 'v list" where
  "map_values m = map snd m"

definition set_add :: "'a list \<Rightarrow> 'a \<Rightarrow> 'a list" where
  "set_add s x = (if x \<in> set s then s else s @ [x])"

text \<open>
  \<^verbatim>\<open>Array.prototype.sort(cmp)\<close> is stable.  For a comparator that orders its arguments
  consistently the result is the one stable sorted arrangement, which this insertion
  sort computes: \<open>x\<close> goes after \<open>y\<close> only when \<open>cmp x y > 0\<close>.  A comparator value of
  \<^verbatim>\<open>NaN\<close> counts as \<open>+0\<close>, as the language specification says.
\<close>

definition js_positive :: "jsnum \<Rightarrow> bool" where
  "js_positive v = (case v of None \<Rightarrow> False | Some r \<Rightarrow> 0 < r)"

fun js_insert :: "('a \<Rightarrow> 'a \<Rightarrow> jsnum) \<Rightarrow> 'a \<Rightarrow> 'a list \<Rightarrow> 'a list" where
  "js_insert cmp x [] = [x]"
| "js_insert cmp x (y # ys) =
     (if js_positive (cmp x y) then y # js_insert cmp x ys else x # y # ys)"

definition js_sort :: "('a \<Rightarrow> 'a \<Rightarrow> jsnum) \<Rightarrow> 'a list \<Rightarrow> 'a list" where
  "js_sort cmp xs = foldr (js_insert cmp) xs []"

section \<open>Data model\<close>

record CheckCounter =
  cc_name :: string
  cc_score :: jsnum
  matchupPercent :: jsnum
  confidenceMargin :: jsnum
  koPercent :: jsnum
  switchPercent :: jsnum

record StatSpread =
  nature :: string
  hp :: nat
  atk :: nat
  dfn :: nat
  spa :: nat
  spd :: nat
  spe :: nat
  percentage :: jsnum

record PokemonUsageData =
  name :: string
  rawCount :: nat
  avgWeight :: jsnum
  viabilityCeiling :: nat
  abilities :: "(string \<times> rat) list"
  items :: "(string \<times> rat) list"
  spreads :: "StatSpread list"
  moves :: "(string \<times> rat) list"
  teraTypes :: "(string \<times> rat) list"
  teammates :: "(string \<times> rat) list"
  checksAndCounters :: "CheckCounter list"

type_synonym usage_map = "(string \<times> PokemonUsageData) list"

record ParseOptions =
  includeSpreads :: "bool option"
  includeChecksAndCounters :: "bool option"
  minMovePercentage :: "rat option"

section \<open>Usage ranking\<close>

text \<open>\<^verbatim>\<open>sortByUsage\<close> and \<^verbatim>\<open>getTopPokemon\<close> of the parser module.  The limit is a count.\<close>

definition sortByUsage :: "usage_map \<Rightarrow> PokemonUsageData list" where
  "sortByUsage usageData =
     js_sort (\<lambda>a b. Some (of_nat (rawCount b) - of_nat (rawCount a))) (map_values usageData)"

definition getTopPokemon :: "usage_map \<Rightarrow> nat \<Rightarrow> PokemonUsageData list" where
  "getTopPokemon usageData limit = slice (sortByUsage usageData) 0 limit"

section \<open>Synergy engine\<close>

record SynergyPair =
  pokemon1 :: string
  pokemon2 :: string
  pair_score :: rat

record TeammateScore =
  tm_name :: string
  tm_score :: rat

record TeamSynergyAnalysis =
  syn_score :: rat
  strongPairs :: "SynergyPair list"
  weakPairs :: "SynergyPair list"
  suggestedTeammates :: "TeammateScore list"

text \<open>\<^verbatim>\<open>m.get(k) || 0\<close> on a percentage map.\<close>

definition get_or_zero :: "(string \<times> rat) list \<Rightarrow> string \<Rightarrow> rat" where
  "get_or_zero m k = (case map_get m k of None \<Rightarrow> 0 | Some v \<Rightarrow> v)"

definition pairKey :: "string \<Rightarrow> string \<Rightarrow> string" where
  "pairKey p1 p2 = p1 @ ''|'' @ p2"

text \<open>The state of the two loops of \<^verbatim>\<open>calculateTeamSynergy\<close>.\<close>

record SynergyState =
  st_pairScores :: "(string \<times> rat) list"
  st_strong :: "SynergyPair list"
  st_weak :: "SynergyPair list"

text \<open>The body of the inner loop, for \<^verbatim>\<open>pokemon1\<close> with \<^verbatim>\<open>data1\<close> and the later member
  \<^verbatim>\<open>pokemon2\<close>.\<close>

definition synergy_inner ::
  "usage_map \<Rightarrow> string \<Rightarrow> PokemonUsageData \<Rightarrow> SynergyState \<Rightarrow> string \<Rightarrow> SynergyState" where
  "synergy_inner usageData p1 data1 st p2 =
     (case map_get usageData p2 of
        None \<Rightarrow> st
      | Some data2 \<Rightarrow>
          (let synergy1to2 = get_or_zero (teammates data1) p2;
               synergy2to1 = get_or_zero (teammates data2) p1;
               avgSynergy = (synergy1to2 + synergy2to1) / 2;
               pair = \<lparr>pokemon1 = p1, pokemon2 = p2, pair_score = avgSynergy\<rparr>
           in \<lparr>st_pairScores = map_set (st_pairScores st) (pairKey p1 p2) avgSynergy,
               st_strong = (if avgSynergy \<ge> 30 then st_strong st @ [pair] else st_strong st),
               st_weak = (if avgSynergy \<ge> 30 then st_weak st
                          else if avgSynergy < 15 then st_weak st @ [pair] else st_weak st)\<rparr>))"

text \<open>The outer loop: index \<open>i\<close> runs over the team, index \<open>j\<close> over the members after
  \<open>i\<close>.\<close>

fun synergy_outer :: "usage_map \<Rightarrow> string list \<Rightarrow> SynergyState \<Rightarrow> SynergyState" where
  "synergy_outer usageData [] st = st"
| "synergy_outer usageData (p1 # rest) st =
     (case map_get usageData p1 of
        None \<Rightarrow> synergy_outer usageData rest st
      | Some data1 \<Rightarrow> synergy_outer usageData rest (foldl (synergy_inner usageData p1 data1) st rest))"

text \<open>\<^verbatim>\<open>suggestTeammates\<close>: the loop over a member's teammates map, and over the team.\<close>

definition suggest_step ::
  "string list \<Rightarrow> (string \<times> rat) list \<Rightarrow> string \<times> rat \<Rightarrow> (string \<times> rat) list" where
  "suggest_step normalizedTeam candidateScores e =
     (let normalizedTeammate = toLowerCase (fst e) in
      if normalizedTeammate \<in> set normalizedTeam then candidateScores
      else map_set candidateScores normalizedTeammate
             (get_or_zero candidateScores normalizedTeammate + snd e))"

definition suggest_member ::
  "usage_map \<Rightarrow> string list \<Rightarrow> (string \<times> rat) list \<Rightarrow> string \<Rightarrow> (string \<times> rat) list" where
  "suggest_member usageData normalizedTeam candidateScores teamMember =
     (case map_get usageData teamMember of
        None \<Rightarrow> candidateScores
      | Some data \<Rightarrow> foldl (suggest_step normalizedTeam) candidateScores (teammates data))"

definition suggestTeammates :: "string list \<Rightarrow> usage_map \<Rightarrow> nat \<Rightarrow> TeammateScore list" where
  "suggestTeammates currentTeam usageData limit =
     (let normalizedTeam = map toLowerCase currentTeam;
          candidateScores = foldl (suggest_member usageData normalizedTeam) [] normalizedTeam;
          candidates = map (\<lambda>e. \<lparr>tm_name = fst e,
                                   tm_score = snd e / of_nat (length normalizedTeam)\<rparr>)
                           candidateScores
      in slice (js_sort (\<lambda>a b. Some (tm_score b - tm_score a)) candidates) 0 limit)"

definition calculateTeamSynergy :: "string list \<Rightarrow> usage_map \<Rightarrow> TeamSynergyAnalysis" where
  "calculateTeamSynergy team usageData =
     (let normalizedTeam = map toLowerCase team;
          st = synergy_outer usageData normalizedTeam
                 \<lparr>st_pairScores = [], st_strong = [], st_weak = []\<rparr>;
          strong = js_sort (\<lambda>a b. Some (pair_score b - pair_score a)) (st_strong st);
          weak = js_sort (\<lambda>a b. Some (pair_score a - pair_score b)) (st_weak st);
          allScores = map_values (st_pairScores st);
          avgScore = (if length allScores > 0
                      then foldl (+) 0 allScores / of_nat (length allScores) else 0);
          overallScore = min 100 (avgScore * 2)
      in \<lparr>syn_score = overallScore, strongPairs = strong, weakPairs = weak,
          suggestedTeammates = suggestTeammates normalizedTeam usageData 10\<rparr>)"

text \<open>
  The pairs the two loops visit, in their order, and the pairs both of whose members
  have a profile; the synergy of a pair.
\<close>

fun team_pairs :: "string list \<Rightarrow> (string \<times> string) list" where
  "team_pairs [] = []"
| "team_pairs (p # rest) = map (Pair p) rest @ team_pairs rest"

definition present_pairs :: "usage_map \<Rightarrow> string list \<Rightarrow> (string \<times> string) list" where
  "present_pairs usageData team =
     filter (\<lambda>pr. map_has usageData (fst pr) \<and> map_has usageData (snd pr)) (team_pairs team)"

definition teammate_percent :: "usage_map \<Rightarrow> string \<Rightarrow> string \<Rightarrow> rat" where
  "teammate_percent usageData src tgt =
     (case map_get usageData src of
        None \<Rightarrow> 0
      | Some data \<Rightarrow> get_or_zero (teammates data) tgt)"

definition pair_synergy :: "usage_map \<Rightarrow> string \<times> string \<Rightarrow> rat" where
  "pair_synergy usageData pr =
     (teammate_percent usageData (fst pr) (snd pr) + teammate_percent usageData (snd pr) (fst pr)) / 2"

definition synergy_pair :: "usage_map \<Rightarrow> string \<times> string \<Rightarrow> SynergyPair" where
  "synergy_pair usageData pr =
     \<lparr>pokemon1 = fst pr, pokemon2 = snd pr, pair_score = pair_synergy usageData pr\<rparr>"

text \<open>What one visited pair with both profiles present does to the state of the loops.\<close>

definition record_pair :: "usage_map \<Rightarrow> SynergyState \<Rightarrow> string \<times> string \<Rightarrow> SynergyState" where
  "record_pair usageData st pr =
     \<lparr>st_pairScores = map_set (st_pairScores st) (pairKey (fst pr) (snd pr)) (pair_synergy usageData pr),
      st_strong = (if pair_synergy usageData pr \<ge> 30
                   then st_strong st @ [synergy_pair usageData pr] else st_strong st),
      st_weak = (if pair_synergy usageData pr \<ge> 30 then st_weak st
                 else if pair_synergy usageData pr < 15
                 then st_weak st @ [synergy_pair usageData pr] else st_weak st)\<rparr>"

text \<open>The record \<^verbatim>\<open>parsePokemonEntry\<close> starts from: a name, and nothing else yet.\<close>

definition initialData :: "string \<Rightarrow> PokemonUsageData" where
  "initialData nm =
     \<lparr>name = nm, rawCount = 0, avgWeight = Some 0, viabilityCeiling = 0,
      abilities = [], items = [], spreads = [], moves = [], teraTypes = [],
      teammates = [], checksAndCounters = []\<rparr>"



section \<open>Decimal numerals\<close>

text \<open>The decimal numeral of a natural number, as template literals print it.\<close>

definition digit_char :: "nat \<Rightarrow> char" where
  "digit_char d = char_of (48 + d)"

fun nat_to_string :: "nat \<Rightarrow> string" where
  "nat_to_string n =
     (if n < 10 then [digit_char n] else nat_to_string (n div 10) @ [digit_char (n mod 10)])"

text \<open>\<^verbatim>\<open>xs.join(', ')\<close>.\<close>

fun join_comma :: "string list \<Rightarrow> string" where
  "join_comma [] = []"
| "join_comma [s] = s"
| "join_comma (s # s' # ss) = s @ '', '' @ join_comma (s' # ss)"

section \<open>Threat and counter engine\<close>

record ThreatData =
  threatens :: "string list"
  scores :: "jsnum list"

type_synonym threat_map = "(string \<times> ThreatData) list"

record BlindSpot =
  bs_pokemon :: string
  bs_threatens :: "string list"
  avgScore :: jsnum

record NameScore =
  ns_name :: string
  ns_score :: jsnum

record ThreatAssessment =
  ta_pokemon :: string
  threatScore :: jsnum
  ta_threatens :: "NameScore list"
  threatenedBy :: "NameScore list"

record CounterScore =
  cs_pokemon :: string
  cs_score :: jsnum

record WeaknessReport =
  blindSpots :: "BlindSpot list"
  defensiveScore :: rat
  majorThreats :: "ThreatAssessment list"
  wr_suggestions :: "string list"

text \<open>
  The body of the loop over a member's checks and counters: the entry of the threat is
  created when missing, then the member and the score are added to it in place.
\<close>

definition collect_counter :: "string \<Rightarrow> threat_map \<Rightarrow> CheckCounter \<Rightarrow> threat_map" where
  "collect_counter teamMember allThreats counter =
     (let threatName = toLowerCase (cc_name counter);
          allThreats1 = (if \<not> map_has allThreats threatName
                         then map_set allThreats threatName \<lparr>threatens = [], scores = []\<rparr>
                         else allThreats)
      in case map_get allThreats1 threatName of
           None \<Rightarrow> allThreats1
         | Some threat \<Rightarrow>
             map_set allThreats1 threatName
               \<lparr>threatens = set_add (threatens threat) teamMember,
                scores = scores threat @ [cc_score counter]\<rparr>)"

definition collect_member :: "usage_map \<Rightarrow> threat_map \<Rightarrow> string \<Rightarrow> threat_map" where
  "collect_member usageData allThreats teamMember =
     (case map_get usageData teamMember of
        None \<Rightarrow> allThreats
      | Some data \<Rightarrow> foldl (collect_counter teamMember) allThreats (checksAndCounters data))"

definition collectThreats :: "usage_map \<Rightarrow> string list \<Rightarrow> threat_map" where
  "collectThreats usageData normalizedTeam = foldl (collect_member usageData) [] normalizedTeam"

text \<open>\<^verbatim>\<open>scores.reduce((a, b) => a + b, 0) / scores.length\<close>.\<close>

definition mean_score :: "jsnum list \<Rightarrow> jsnum" where
  "mean_score ss = js_div_count (foldl js_add (Some 0) ss) (length ss)"

text \<open>\<^verbatim>\<open>Math.max(2, Math.ceil(teamSize * 0.33))\<close>.\<close>

definition blindSpotThreshold :: "nat \<Rightarrow> int" where
  "blindSpotThreshold teamSize = max 2 \<lceil>(of_nat teamSize :: rat) * (33 / 100)\<rceil>"

definition blindSpot_cmp :: "BlindSpot \<Rightarrow> BlindSpot \<Rightarrow> jsnum" where
  "blindSpot_cmp a b =
     (if length (bs_threatens b) \<noteq> length (bs_threatens a)
      then Some (of_nat (length (bs_threatens b)) - of_nat (length (bs_threatens a)))
      else js_sub (avgScore b) (avgScore a))"

definition findBlindSpotsFromThreats :: "threat_map \<Rightarrow> nat \<Rightarrow> BlindSpot list" where
  "findBlindSpotsFromThreats allThreats teamSize =
     (let threshold = blindSpotThreshold teamSize;
          blindSpots =
            map (\<lambda>e. \<lparr>bs_pokemon = fst e, bs_threatens = threatens (snd e),
                       avgScore = mean_score (scores (snd e))\<rparr>)
              (filter (\<lambda>e. int (length (threatens (snd e))) \<ge> threshold) allThreats)
      in js_sort blindSpot_cmp blindSpots)"

definition findBlindSpots :: "string list \<Rightarrow> usage_map \<Rightarrow> BlindSpot list" where
  "findBlindSpots team usageData =
     (let normalizedTeam = map toLowerCase team;
          allThreats = collectThreats usageData normalizedTeam
      in findBlindSpotsFromThreats allThreats (length normalizedTeam))"

text \<open>
  \<^verbatim>\<open>findTeamMembersCheckingThreat\<close>.  Its first inner loop only continues and changes
  nothing; the second part looks the team member up in the threat's own list.
\<close>

definition checking_member ::
  "string \<Rightarrow> usage_map \<Rightarrow> NameScore list \<Rightarrow> string \<Rightarrow> NameScore list" where
  "checking_member threat usageData checkers teamMember =
     (case map_get usageData teamMember of
        None \<Rightarrow> checkers
      | Some data \<Rightarrow>
          (case map_get usageData threat of
             None \<Rightarrow> checkers
           | Some threatData \<Rightarrow>
               (case find (\<lambda>c. toLowerCase (cc_name c) = teamMember) (checksAndCounters threatData) of
                  None \<Rightarrow> checkers
                | Some counter \<Rightarrow> checkers @ [\<lparr>ns_name = teamMember, ns_score = cc_score counter\<rparr>])))"

definition findTeamMembersCheckingThreat ::
  "string \<Rightarrow> string list \<Rightarrow> usage_map \<Rightarrow> NameScore list" where
  "findTeamMembersCheckingThreat threat team usageData =
     js_sort (\<lambda>a b. js_sub (ns_score b) (ns_score a))
       (foldl (checking_member threat usageData) [] team)"

text \<open>\<^verbatim>\<open>data.scores[0] || 0\<close>: a missing, zero or \<^verbatim>\<open>NaN\<close> first score gives \<open>0\<close>.\<close>

definition first_score_or_zero :: "jsnum list \<Rightarrow> jsnum" where
  "first_score_or_zero ss =
     (case ss of [] \<Rightarrow> Some 0 | s # _ \<Rightarrow> (case s of None \<Rightarrow> Some 0 | Some v \<Rightarrow> Some v))"

definition assess_threat :: "usage_map \<Rightarrow> string list \<Rightarrow> string \<times> ThreatData \<Rightarrow> ThreatAssessment" where
  "assess_threat usageData team e =
     (let pokemon = fst e; data = snd e;
          avg = mean_score (scores data);
          threatenCount = length (threatens data);
          usageFactor = (case map_get usageData pokemon of
                           Some pokemonData \<Rightarrow> min 1 (of_nat (rawCount pokemonData) / 5000)
                         | None \<Rightarrow> 1 / 2);
          tscore = js_mul (js_add (js_mul avg (Some 10)) (Some (of_nat threatenCount * 20)))
                     (Some usageFactor)
      in \<lparr>ta_pokemon = pokemon, threatScore = tscore,
          ta_threatens = map (\<lambda>nm. \<lparr>ns_name = nm, ns_score = first_score_or_zero (scores data)\<rparr>)
                           (threatens data),
          threatenedBy = findTeamMembersCheckingThreat pokemon team usageData\<rparr>)"

definition calculateMajorThreats ::
  "threat_map \<Rightarrow> usage_map \<Rightarrow> string list \<Rightarrow> ThreatAssessment list" where
  "calculateMajorThreats threats usageData team =
     js_sort (\<lambda>a b. js_sub (threatScore b) (threatScore a))
       (map (assess_threat usageData team) threats)"

definition findCountersForPokemon :: "string \<Rightarrow> usage_map \<Rightarrow> nat \<Rightarrow> CounterScore list" where
  "findCountersForPokemon pokemon usageData limit =
     (case map_get usageData pokemon of
        None \<Rightarrow> []
      | Some data \<Rightarrow>
          map (\<lambda>c. \<lparr>cs_pokemon = cc_name c, cs_score = cc_score c\<rparr>)
            (slice (checksAndCounters data) 0 limit))"

definition generateDefensiveSuggestions ::
  "BlindSpot list \<Rightarrow> ThreatAssessment list \<Rightarrow> string list \<Rightarrow> usage_map \<Rightarrow> string list" where
  "generateDefensiveSuggestions bspots mthreats team usageData =
     (let s1 = (case bspots of
                  [] \<Rightarrow> []
                | topBlindSpot # _ \<Rightarrow>
                    [''Critical blind spot: '' @ bs_pokemon topBlindSpot @ '' threatens ''
                       @ nat_to_string (length (bs_threatens topBlindSpot)) @ '' team members'']
                    @ (let counters = findCountersForPokemon (bs_pokemon topBlindSpot) usageData 3
                       in if length counters > 0
                          then [''Consider adding: '' @ join_comma (map cs_pokemon counters)
                                  @ '' to check '' @ bs_pokemon topBlindSpot]
                          else []));
          s2 = (if length mthreats > 5
                then [''Team faces '' @ nat_to_string (length mthreats)
                        @ '' significant threats - consider defensive backbone'']
                else []);
          uncoveredThreats = filter (\<lambda>t. length (threatenedBy t) = 0) mthreats;
          s3 = (if length uncoveredThreats > 0
                then [''No answers for: '' @ join_comma (map ta_pokemon (slice uncoveredThreats 0 3))]
                else [])
      in s1 @ s2 @ s3)"

definition analyzeTeamWeaknesses :: "string list \<Rightarrow> usage_map \<Rightarrow> WeaknessReport" where
  "analyzeTeamWeaknesses team usageData =
     (let normalizedTeam = map toLowerCase team;
          allThreats = collectThreats usageData normalizedTeam;
          bspots = findBlindSpotsFromThreats allThreats (length normalizedTeam);
          mthreats = calculateMajorThreats allThreats usageData normalizedTeam;
          avgThreatsPerMember =
            (of_nat (length (map_values allThreats)) :: rat) / of_nat (max 1 (length normalizedTeam));
          blindSpotPenalty = (of_nat (length bspots) :: rat) * 10;
          dscore = max 0 (100 - avgThreatsPerMember * 5 - blindSpotPenalty)
      in \<lparr>blindSpots = bspots, defensiveScore = dscore,
          majorThreats = slice mthreats 0 10,
          wr_suggestions = generateDefensiveSuggestions bspots mthreats normalizedTeam usageData\<rparr>)"













section \<open>Regular expressions\<close>

text \<open>
  The regular expressions of the source are sequences of literals and of quantified
  character classes, some of them capturing.  The matcher below is the backtracking
  matcher of JavaScript for such sequences: a greedy quantifier tries the longest run
  first, a lazy one the shortest, and the first way to match the whole sequence wins;
  an unanchored search tries the start positions from the left.
\<close>

definition is_space :: "char \<Rightarrow> bool" where
  "is_space c = ((of_char c :: nat) = 32 \<or> (9 \<le> (of_char c :: nat) \<and> (of_char c :: nat) \<le> 13))"

definition is_digit :: "char \<Rightarrow> bool" where
  "is_digit c = (48 \<le> (of_char c :: nat) \<and> (of_char c :: nat) \<le> 57)"

definition is_word :: "char \<Rightarrow> bool" where
  "is_word c = (is_digit c \<or> isUpper c
      \<or> (97 \<le> (of_char c :: nat) \<and> (of_char c :: nat) \<le> 122) \<or> c = CHR ''_'')"

text \<open>The classes \<^verbatim>\<open>.\<close>, \<^verbatim>\<open>\s\<close>, \<^verbatim>\<open>\d\<close>, \<^verbatim>\<open>[\d.]\<close>, \<^verbatim>\<open>[^:]\<close> and \<^verbatim>\<open>\w\<close>.\<close>

datatype cls = AnyChar | Space | Digit | DigitDot | NotColon | WordChar

fun cls_mem :: "cls \<Rightarrow> char \<Rightarrow> bool" where
  "cls_mem AnyChar c = (c \<noteq> CHR 0x0A \<and> c \<noteq> CHR 0x0D)"
| "cls_mem Space c = is_space c"
| "cls_mem Digit c = is_digit c"
| "cls_mem DigitDot c = (is_digit c \<or> c = CHR ''.'')"
| "cls_mem NotColon c = (c \<noteq> CHR '':'')"
| "cls_mem WordChar c = is_word c"

text \<open>A literal, \<^verbatim>\<open>c+\<close>, \<^verbatim>\<open>c+?\<close>, \<^verbatim>\<open>c*\<close> for a class \<open>c\<close>, and \<^verbatim>\<open>x?\<close> for a character
  \<open>x\<close>; an item is an atom with the flag that it is a capturing group.\<close>

datatype atom = Lit string | Plus cls | LazyPlus cls | Star cls | Opt char

type_synonym item = "bool \<times> atom"

definition run_length :: "cls \<Rightarrow> string \<Rightarrow> nat" where
  "run_length c s = length (takeWhile (cls_mem c) s)"

text \<open>The lengths an atom may consume at the head of \<open>s\<close>, in the order the matcher
  tries them.\<close>

fun atom_lengths :: "atom \<Rightarrow> string \<Rightarrow> nat list" where
  "atom_lengths (Lit l) s = (if startsWith s l then [length l] else [])"
| "atom_lengths (Plus c) s = rev [1..<Suc (run_length c s)]"
| "atom_lengths (LazyPlus c) s = [1..<Suc (run_length c s)]"
| "atom_lengths (Star c) s = rev [0..<Suc (run_length c s)]"
| "atom_lengths (Opt x) s = (if startsWith s [x] then [1, 0] else [0])"

fun first_match :: "('k \<Rightarrow> 'r option) \<Rightarrow> 'k list \<Rightarrow> 'r option" where
  "first_match f [] = None"
| "first_match f (k # ks) = (case f k of Some r \<Rightarrow> Some r | None \<Rightarrow> first_match f ks)"

definition add_capture ::
  "bool \<Rightarrow> string \<Rightarrow> (string list \<times> string) option \<Rightarrow> (string list \<times> string) option" where
  "add_capture cap txt r =
     (case r of
        None \<Rightarrow> None
      | Some cr \<Rightarrow> Some (if cap then txt # fst cr else fst cr, snd cr))"

text \<open>Matching at the head of \<open>s\<close>: the captured texts and the rest of \<open>s\<close>.\<close>

fun match_items :: "item list \<Rightarrow> string \<Rightarrow> (string list \<times> string) option" where
  "match_items [] s = Some ([], s)"
| "match_items (it # its) s =
     first_match (\<lambda>k. add_capture (fst it) (take k s) (match_items its (drop k s)))
       (atom_lengths (snd it) s)"

text \<open>\<^verbatim>\<open>s.match(re)\<close>: the captures of the leftmost match, or nothing.\<close>

fun regex_search :: "item list \<Rightarrow> string \<Rightarrow> string list option" where
  "regex_search re [] = map_option fst (match_items re [])"
| "regex_search re (c # cs) =
     (case match_items re (c # cs) of
        Some r \<Rightarrow> Some (fst r)
      | None \<Rightarrow> regex_search re cs)"

text \<open>\<^verbatim>\<open>s.trim()\<close>.\<close>

definition trim :: "string \<Rightarrow> string" where
  "trim s = rev (dropWhile is_space (rev (dropWhile is_space s)))"

text \<open>
  \<^verbatim>\<open>x.toFixed(f)\<close> for an exact number: the nearest numeral with \<open>f\<close> decimals, a tie
  going to the larger magnitude.
\<close>

definition toFixed :: "nat \<Rightarrow> rat \<Rightarrow> string" where
  "toFixed f x =
     (let n = nat \<lfloor>\<bar>x\<bar> * 10 ^ f + 1 / 2\<rfloor>;
          whole = nat_to_string (n div 10 ^ f);
          frac = nat_to_string (n mod 10 ^ f)
      in (if x < 0 then ''-'' else '''') @ whole
         @ (if f = 0 then '''' else ''.'' @ replicate (f - length frac) (CHR ''0'') @ frac))"

section \<open>Coverage engine\<close>

text \<open>
  The type chart and the move table are object literals, and \<^verbatim>\<open>obj[key]\<close> reads a
  property through the prototype chain: an own key of the literal first, then a
  property of \<^verbatim>\<open>Object.prototype\<close>.  What is found there is a function, or the prototype
  object itself under \<^verbatim>\<open>__proto__\<close>: a truthy value that is no string and has no property
  \<^verbatim>\<open>strong\<close>.
\<close>

definition object_prototype_keys :: "string list" where
  "object_prototype_keys =
     [''constructor'', ''__defineGetter__'', ''__defineSetter__'', ''hasOwnProperty'',
      ''__lookupGetter__'', ''__lookupSetter__'', ''isPrototypeOf'', ''propertyIsEnumerable'',
      ''toString'', ''valueOf'', ''__proto__'', ''toLocaleString'']"

datatype 'v property = Undefined | Own 'v | Inherited string

definition object_get :: "(string \<times> 'v) list \<Rightarrow> string \<Rightarrow> 'v property" where
  "object_get obj key =
     (case map_get obj key of
        Some v \<Rightarrow> Own v
      | None \<Rightarrow> (if key \<in> set object_prototype_keys then Inherited key else Undefined))"

text \<open>
  What \<^verbatim>\<open>getMoveType\<close> returns when it does not return \<^verbatim>\<open>null\<close>: a string, or the value
  that \<^verbatim>\<open>Object.prototype\<close> holds under a name.  Used as a property key, a string stands
  for itself, a function for its source text and the prototype object for
  \<^verbatim>\<open>[object Object]\<close>.
\<close>

datatype move_type = TypeName string | PrototypeValue string

definition property_key :: "move_type \<Rightarrow> string" where
  "property_key v =
     (case v of
        TypeName s \<Rightarrow> s
      | PrototypeValue k \<Rightarrow>
          (if k = ''__proto__'' then ''[object Object]''
           else ''function '' @ (if k = ''constructor'' then ''Object'' else k)
                  @ ''() { [native code] }''))"

text \<open>
  The \<^verbatim>\<open>TypeError\<close> of \<^verbatim>\<open>for (const x of undefined)\<close>, and a loop whose body may throw: the
  first exception ends it.
\<close>

datatype type_error = NotIterable

fun try_fold :: "('s \<Rightarrow> 'a \<Rightarrow> type_error + 's) \<Rightarrow> 's \<Rightarrow> 'a list \<Rightarrow> type_error + 's" where
  "try_fold f s [] = Inr s"
| "try_fold f s (x # xs) = (case f s x of Inl e \<Rightarrow> Inl e | Inr s' \<Rightarrow> try_fold f s' xs)"

text \<open>
  The type chart: for each attacking type, the types it is strong against and the
  types it is weak against.
\<close>

definition TYPE_CHART :: "(string \<times> string list \<times> string list) list" where
  "TYPE_CHART =
     [(''Normal'', [], [''Rock'', ''Steel'']),
      (''Fire'', [''Grass'', ''Ice'', ''Bug'', ''Steel''], [''Fire'', ''Water'', ''Rock'', ''Dragon'']),
      (''Water'', [''Fire'', ''Ground'', ''Rock''], [''Water'', ''Grass'', ''Dragon'']),
      (''Electric'', [''Water'', ''Flying''], [''Electric'', ''Grass'', ''Dragon'']),
      (''Grass'', [''Water'', ''Ground'', ''Rock''],
         [''Fire'', ''Grass'', ''Poison'', ''Flying'', ''Bug'', ''Dragon'', ''Steel'']),
      (''Ice'', [''Grass'', ''Ground'', ''Flying'', ''Dragon''], [''Fire'', ''Water'', ''Ice'', ''Steel'']),
      (''Fighting'', [''Normal'', ''Ice'', ''Rock'', ''Dark'', ''Steel''],
         [''Poison'', ''Flying'', ''Psychic'', ''Bug'']),
      (''Poison'', [''Grass''], [''Poison'', ''Ground'', ''Rock'', ''Ghost'']),
      (''Ground'', [''Fire'', ''Electric'', ''Poison'', ''Rock'', ''Steel''], [''Grass'', ''Bug'']),
      (''Flying'', [''Grass'', ''Fighting'', ''Bug''], [''Electric'', ''Rock'', ''Steel'']),
      (''Psychic'', [''Fighting'', ''Poison''], [''Psychic'', ''Steel'']),
      (''Bug'', [''Grass'', ''Psychic'', ''Dark''],
         [''Fire'', ''Fighting'', ''Poison'', ''Flying'', ''Ghost'', ''Steel'']),
      (''Rock'', [''Fire'', ''Ice'', ''Flying'', ''Bug''], [''Fighting'', ''Ground'', ''Steel'']),
      (''Ghost'', [''Psychic'', ''Ghost''], [''Dark'', ''Steel'']),
      (''Dragon'', [''Dragon''], [''Steel'']),
      (''Dark'', [''Psychic'', ''Ghost''], [''Fighting'', ''Dark'', ''Steel'']),
      (''Steel'', [''Ice'', ''Rock''], [''Fire'', ''Water'', ''Electric'', ''Steel''])]"

definition ALL_TYPES :: "string list" where
  "ALL_TYPES =
     [''Normal'', ''Fire'', ''Water'', ''Electric'', ''Grass'', ''Ice'', ''Fighting'', ''Poison'',
      ''Ground'', ''Flying'', ''Psychic'', ''Bug'', ''Rock'', ''Ghost'', ''Dragon'', ''Dark'', ''Steel'']"

definition moveTypeMap :: "(string \<times> string) list" where
  "moveTypeMap =
     [(''Earthquake'', ''Ground''), (''Thunderbolt'', ''Electric''), (''Thunder'', ''Electric''),
      (''Ice Beam'', ''Ice''), (''Fire Blast'', ''Fire''), (''Flamethrower'', ''Fire''),
      (''Surf'', ''Water''), (''Hydro Pump'', ''Water''), (''Psychic'', ''Psychic''),
      (''Shadow Ball'', ''Ghost''), (''Sludge Bomb'', ''Poison''), (''Rock Slide'', ''Rock''),
      (''Ancient Power'', ''Rock''), (''Cross Chop'', ''Fighting''), (''Dynamic Punch'', ''Fighting''),
      (''Crunch'', ''Dark''), (''Pursuit'', ''Dark''), (''Return'', ''Normal''),
      (''Body Slam'', ''Normal''), (''Double-Edge'', ''Normal''), (''Giga Drain'', ''Grass''),
      (''Solar Beam'', ''Grass''), (''Zap Cannon'', ''Electric''), (''Outrage'', ''Dragon''),
      (''Dragonbreath'', ''Dragon'')]"

text \<open>\<^verbatim>\<open>/Hidden Power \[?(\w+)\]?/\<close>.\<close>

definition hiddenPowerRegex :: "item list" where
  "hiddenPowerRegex =
     [(False, Lit ''Hidden Power ''), (False, Opt (CHR ''['')), (True, Plus WordChar),
      (False, Opt (CHR '']''))]"

text \<open>\<^verbatim>\<open>getMoveType\<close>; \<open>None\<close> is \<^verbatim>\<open>null\<close>.  Every value of the table and every inherited value
  is truthy, so \<^verbatim>\<open>moveTypeMap[moveName] || null\<close> is \<^verbatim>\<open>null\<close> only for a name that is no
  property.\<close>

definition getMoveType :: "string \<Rightarrow> move_type option" where
  "getMoveType moveName =
     (if startsWith moveName ''Hidden Power''
      then (case regex_search hiddenPowerRegex moveName of
              Some (ty # _) \<Rightarrow> Some (TypeName ty)
            | _ \<Rightarrow> Some (TypeName ''Normal''))
      else (case object_get moveTypeMap moveName of
              Undefined \<Rightarrow> None
            | Own ty \<Rightarrow> Some (TypeName ty)
            | Inherited k \<Rightarrow> Some (PrototypeValue k)))"

record TypeRedundancy =
  tr_type :: move_type
  tr_pokemon :: "string list"

record CoverageSuggestion =
  sg_pokemon :: string
  sg_move :: string
  sg_reason :: string

record CoverageReport =
  coverageByType :: "(string \<times> nat) list"
  gaps :: "string list"
  redundancies :: "TypeRedundancy list"
  coverageScore :: rat
  cv_suggestions :: "CoverageSuggestion list"

text \<open>The top four moves by usage, the catch-all bucket still among them.\<close>

definition topMoves :: "PokemonUsageData \<Rightarrow> (string \<times> rat) list" where
  "topMoves data = slice (js_sort (\<lambda>a b. Some (snd b - snd a)) (moves data)) 0 4"

text \<open>\<^verbatim>\<open>coverageByType.set(t, (coverageByType.get(t) || 0) + 1)\<close>.\<close>

definition cover_type :: "(string \<times> nat) list \<Rightarrow> string \<Rightarrow> (string \<times> nat) list" where
  "cover_type cbt coveredType =
     map_set cbt coveredType ((case map_get cbt coveredType of None \<Rightarrow> 0 | Some n \<Rightarrow> n) + 1)"

text \<open>
  The body of the loop over the top moves of one member; the state is the member's
  move set and the coverage map.  The test \<^verbatim>\<open>moveType && TYPE_CHART[moveType]\<close> passes
  for an entry of the chart and for an inherited property alike; for the latter
  \<^verbatim>\<open>TYPE_CHART[moveType].strong\<close> is \<^verbatim>\<open>undefined\<close> and the loop over it throws.
\<close>

definition coverage_move ::
  "string list \<times> (string \<times> nat) list \<Rightarrow> string \<times> rat
     \<Rightarrow> type_error + string list \<times> (string \<times> nat) list" where
  "coverage_move st e =
     (let move = fst e in
      if move = ''Other'' then Inr st
      else (let pokemonMoves = set_add (fst st) move in
            case getMoveType move of
              None \<Rightarrow> Inr (pokemonMoves, snd st)
            | Some moveType \<Rightarrow>
                (case object_get TYPE_CHART (property_key moveType) of
                   Undefined \<Rightarrow> Inr (pokemonMoves, snd st)
                 | Own eff \<Rightarrow> Inr (pokemonMoves, foldl cover_type (snd st) (fst eff))
                 | Inherited k \<Rightarrow> Inl NotIterable)))"

text \<open>The body of the loop over the team; the state is the coverage map and
  \<^verbatim>\<open>movesByPokemon\<close>.\<close>

definition coverage_member ::
  "usage_map \<Rightarrow> (string \<times> nat) list \<times> (string \<times> string list) list \<Rightarrow> string
     \<Rightarrow> type_error + (string \<times> nat) list \<times> (string \<times> string list) list" where
  "coverage_member usageData st pokemonName =
     (case map_get usageData pokemonName of
        None \<Rightarrow> Inr st
      | Some data \<Rightarrow>
          (case try_fold coverage_move ([], fst st) (topMoves data) of
             Inl e \<Rightarrow> Inl e
           | Inr r \<Rightarrow> Inr (snd r, map_set (snd st) pokemonName (fst r))))"

text \<open>The map from a move type to the members that use it, shared by
  \<^verbatim>\<open>findMoveRedundancies\<close> and \<^verbatim>\<open>checkMoveRedundancy\<close>.\<close>

definition type_usage_move ::
  "string \<Rightarrow> (move_type \<times> string list) list \<Rightarrow> string \<Rightarrow> (move_type \<times> string list) list" where
  "type_usage_move pokemon typeUsage move =
     (case getMoveType move of
        None \<Rightarrow> typeUsage
      | Some moveType \<Rightarrow>
          (let typeUsage1 = (if \<not> map_has typeUsage moveType then map_set typeUsage moveType []
                             else typeUsage)
           in case map_get typeUsage1 moveType of
                None \<Rightarrow> typeUsage1
              | Some members \<Rightarrow> map_set typeUsage1 moveType (set_add members pokemon)))"

definition type_usage ::
  "(string \<times> string list) list \<Rightarrow> (move_type \<times> string list) list" where
  "type_usage movesByPokemon =
     foldl (\<lambda>typeUsage e. foldl (type_usage_move (fst e)) typeUsage (snd e)) [] movesByPokemon"

definition findMoveRedundancies ::
  "(string \<times> string list) list \<Rightarrow> usage_map \<Rightarrow> TypeRedundancy list" where
  "findMoveRedundancies movesByPokemon usageData =
     map (\<lambda>e. \<lparr>tr_type = fst e, tr_pokemon = snd e\<rparr>)
       (filter (\<lambda>e. length (snd e) > 2) (type_usage movesByPokemon))"

text \<open>The types strong against one of the gaps, in the order of the chart: keys of the
  chart, so that the chart has an entry for every type found in this set.\<close>

definition moveTypesToConsider :: "string list \<Rightarrow> string list" where
  "moveTypesToConsider gs =
     foldl (\<lambda>acc gap. foldl (\<lambda>acc' e. if gap \<in> set (fst (snd e)) then set_add acc' (fst e) else acc')
                         acc TYPE_CHART)
       [] gs"

definition suggestion_move ::
  "string list \<Rightarrow> string list \<Rightarrow> string \<Rightarrow> string list \<Rightarrow> CoverageSuggestion list
     \<Rightarrow> string \<times> rat \<Rightarrow> CoverageSuggestion list" where
  "suggestion_move gs consider pokemonName currentMoves suggestions e =
     (let move = fst e; pct = snd e in
      if move \<in> set currentMoves \<or> move = ''Other'' then suggestions
      else if pct < 5 then suggestions
      else (case getMoveType move of
              None \<Rightarrow> suggestions
            | Some (PrototypeValue k) \<Rightarrow> suggestions
            | Some (TypeName moveType) \<Rightarrow>
                if moveType \<notin> set consider then suggestions
                else (case map_get TYPE_CHART moveType of
                        None \<Rightarrow> suggestions
                      | Some eff \<Rightarrow>
                          (let coveredGaps = filter (\<lambda>gap. gap \<in> set (fst eff)) gs in
                           if length coveredGaps > 0
                           then suggestions @
                             [\<lparr>sg_pokemon = pokemonName, sg_move = move,
                               sg_reason = ''Covers '' @ join_comma coveredGaps @ '' (''
                                 @ toFixed 1 pct @ ''% usage)''\<rparr>]
                           else suggestions))))"

definition suggestion_member ::
  "string list \<Rightarrow> string list \<Rightarrow> (string \<times> string list) list \<Rightarrow> usage_map
     \<Rightarrow> CoverageSuggestion list \<Rightarrow> string \<Rightarrow> CoverageSuggestion list" where
  "suggestion_member gs consider movesByPokemon usageData suggestions pokemonName =
     (case map_get usageData pokemonName of
        None \<Rightarrow> suggestions
      | Some data \<Rightarrow>
          (let currentMoves = (case map_get movesByPokemon pokemonName of
                                 None \<Rightarrow> [] | Some ms \<Rightarrow> ms)
           in foldl (suggestion_move gs consider pokemonName currentMoves) suggestions (moves data)))"

definition generateCoverageSuggestions ::
  "string list \<Rightarrow> (string \<times> string list) list \<Rightarrow> usage_map \<Rightarrow> string list
     \<Rightarrow> CoverageSuggestion list" where
  "generateCoverageSuggestions gs movesByPokemon usageData team =
     (if length gs = 0 then []
      else slice (foldl (suggestion_member gs (moveTypesToConsider gs) movesByPokemon usageData)
                    [] team) 0 5)"

definition initialCoverage :: "(string \<times> nat) list" where
  "initialCoverage = foldl (\<lambda>m t. map_set m t 0) [] ALL_TYPES"

text \<open>\<^verbatim>\<open>analyzeCoverage\<close>: the report, or the exception of the collecting loop.\<close>

definition analyzeCoverage :: "string list \<Rightarrow> usage_map \<Rightarrow> type_error + CoverageReport" where
  "analyzeCoverage team usageData =
     (let normalizedTeam = map toLowerCase team in
      case try_fold (coverage_member usageData) (initialCoverage, []) normalizedTeam of
        Inl e \<Rightarrow> Inl e
      | Inr st \<Rightarrow>
          (let cbt = fst st; movesByPokemon = snd st;
               gs = map fst (filter (\<lambda>e. snd e = 0) cbt);
               typesWithCoverage = length (filter (\<lambda>c. c > 0) (map_values cbt));
               cscore = (of_nat typesWithCoverage :: rat) / of_nat (length ALL_TYPES) * 100
           in Inr \<lparr>coverageByType = cbt, gaps = gs,
                  redundancies = findMoveRedundancies movesByPokemon usageData,
                  coverageScore = cscore,
                  cv_suggestions =
                    generateCoverageSuggestions gs movesByPokemon usageData normalizedTeam\<rparr>))"

record ExcessiveCoverage =
  ec_type :: move_type
  ec_count :: nat
  ec_pokemon :: "string list"

record RedundancyReport =
  duplicateMoves :: "(string \<times> string list) list"
  excessiveCoverage :: "ExcessiveCoverage list"
  redundancyScore :: rat

text \<open>The top four move names of a member with the name \<^verbatim>\<open>Other\<close> filtered out, as
  \<^verbatim>\<open>checkMoveRedundancy\<close> takes them.\<close>

definition topMoveNames :: "PokemonUsageData \<Rightarrow> string list" where
  "topMoveNames data = filter (\<lambda>m. m \<noteq> ''Other'') (map fst (topMoves data))"

definition track_duplicate ::
  "string \<Rightarrow> (string \<times> string list) list \<Rightarrow> string \<Rightarrow> (string \<times> string list) list" where
  "track_duplicate pokemonName dups move =
     (let dups1 = (if \<not> map_has dups move then map_set dups move [] else dups)
      in case map_get dups1 move of
           None \<Rightarrow> dups1
         | Some ps \<Rightarrow> map_set dups1 move (ps @ [pokemonName]))"

definition redundancy_member ::
  "usage_map \<Rightarrow> (string \<times> string list) list \<times> (string \<times> string list) list \<Rightarrow> string
     \<Rightarrow> (string \<times> string list) list \<times> (string \<times> string list) list" where
  "redundancy_member usageData st pokemonName =
     (case map_get usageData pokemonName of
        None \<Rightarrow> st
      | Some data \<Rightarrow>
          (let tm = topMoveNames data
           in (foldl (track_duplicate pokemonName) (fst st) tm,
               map_set (snd st) pokemonName tm)))"

definition checkMoveRedundancy :: "string list \<Rightarrow> usage_map \<Rightarrow> RedundancyReport" where
  "checkMoveRedundancy team usageData =
     (let normalizedTeam = map toLowerCase team;
          st = foldl (redundancy_member usageData) ([], []) normalizedTeam;
          dups = fst st; movesByPokemon = snd st;
          actualDuplicates = filter (\<lambda>e. length (snd e) > 1) dups;
          excessive = map (\<lambda>e. \<lparr>ec_type = fst e, ec_count = length (snd e), ec_pokemon = snd e\<rparr>)
                        (filter (\<lambda>e. length (snd e) > 2) (type_usage movesByPokemon));
          totalDuplicates = foldl (\<lambda>sum arr. sum + length arr - 1) 0 (map_values actualDuplicates);
          rscore = min 100 ((of_nat totalDuplicates :: rat) * 15 + of_nat (length excessive) * 10)
      in \<lparr>duplicateMoves = actualDuplicates, excessiveCoverage = excessive,
          redundancyScore = rscore\<rparr>)"

text \<open>
  The types a team's top moves resolve to, member by member and move by move (the
  catch-all name left out), and how often they are strong against a type: the
  coverage count of that type.  A resolved type that names an inherited property of
  the chart is strong against nothing; it is where the collecting loop throws.
\<close>

definition strong_against :: "move_type \<Rightarrow> string list" where
  "strong_against ty =
     (case object_get TYPE_CHART (property_key ty) of Own eff \<Rightarrow> fst eff | _ \<Rightarrow> [])"

definition raises_on :: "move_type \<Rightarrow> bool" where
  "raises_on ty =
     (case object_get TYPE_CHART (property_key ty) of Inherited k \<Rightarrow> True | _ \<Rightarrow> False)"

definition move_types :: "string \<Rightarrow> move_type list" where
  "move_types move =
     (if move = ''Other'' then []
      else (case getMoveType move of None \<Rightarrow> [] | Some ty \<Rightarrow> [ty]))"

definition member_move_types :: "usage_map \<Rightarrow> string \<Rightarrow> move_type list" where
  "member_move_types usageData member =
     (case map_get usageData member of
        None \<Rightarrow> []
      | Some data \<Rightarrow> concat (map (\<lambda>e. move_types (fst e)) (topMoves data)))"

definition team_move_types :: "usage_map \<Rightarrow> string list \<Rightarrow> move_type list" where
  "team_move_types usageData normalizedTeam =
     concat (map (member_move_types usageData) normalizedTeam)"

definition coverage_count :: "usage_map \<Rightarrow> string list \<Rightarrow> string \<Rightarrow> nat" where
  "coverage_count usageData normalizedTeam t =
     sum_list (map (\<lambda>ty. count_list (strong_against ty) t) (team_move_types usageData normalizedTeam))"

definition cov_val :: "(string \<times> nat) list \<Rightarrow> string \<Rightarrow> nat" where
  "cov_val cbt t = (case map_get cbt t of None \<Rightarrow> 0 | Some n \<Rightarrow> n)"

text \<open>
  Two profiles whose top four moves cover every type but Ghost and Psychic; the fifth
  move of the first, were it counted, would cover these two.  And a profile whose only
  move is a Hidden Power named after an inherited property.
\<close>

definition coverage_profiles :: usage_map where
  "coverage_profiles =
     [(''machamp'', (initialData ''Machamp'')
         \<lparr>moves := [(''Shadow Ball'', 5), (''Earthquake'', 80), (''Cross Chop'', 90),
                    (''Fire Blast'', 60), (''Thunderbolt'', 70)]\<rparr>),
      (''starmie'', (initialData ''Starmie'')
         \<lparr>moves := [(''Psychic'', 90), (''Other'', 85), (''Ice Beam'', 80)]\<rparr>)]"


section \<open>Entry parser\<close>

text \<open>\<^verbatim>\<open>parseInt(s, 10)\<close> on a string of digits, as the natural number the digits denote;
  the number of the source is the double nearest to it, the same number below \<open>2\<^sup>5\<^sup>3\<close>.\<close>

definition digit_value :: "char \<Rightarrow> nat" where
  "digit_value c = (of_char c :: nat) - 48"

definition parseInt :: "string \<Rightarrow> nat" where
  "parseInt s = foldl (\<lambda>acc c. acc * 10 + digit_value c) 0 (takeWhile is_digit s)"

text \<open>
  \<^verbatim>\<open>parseFloat(s)\<close> on a string of digits and dots, the only strings the parser passes
  to it: the digits before the first dot and the digits after it, up to a second dot;
  \<^verbatim>\<open>NaN\<close> when there is no digit in either place.
\<close>

definition parseFloat :: "string \<Rightarrow> jsnum" where
  "parseFloat s =
     (let whole = takeWhile is_digit s; r = dropWhile is_digit s in
      case r of
        [] \<Rightarrow> (if whole = [] then None else Some (of_nat (parseInt whole)))
      | c # r' \<Rightarrow>
          (if c = CHR ''.''
           then (let frac = takeWhile is_digit r' in
                 if whole = [] \<and> frac = [] then None
                 else Some (of_nat (parseInt whole) + of_nat (parseInt frac) / 10 ^ length frac))
           else (if whole = [] then None else Some (of_nat (parseInt whole)))))"

text \<open>The regular expressions of the parser.\<close>

definition barTextRegex :: "item list" where
  \<comment> \<open>\<^verbatim>\<open>/\|\s+(.+?)\s+\|/\<close>\<close>
  "barTextRegex =
     [(False, Lit ''|''), (False, Plus Space), (True, LazyPlus AnyChar), (False, Plus Space),
      (False, Lit ''|'')]"

definition rawCountRegex :: "item list" where
  \<comment> \<open>\<^verbatim>\<open>/Raw count:\s*(\d+)/\<close>\<close>
  "rawCountRegex = [(False, Lit ''Raw count:''), (False, Star Space), (True, Plus Digit)]"

definition avgWeightRegex :: "item list" where
  \<comment> \<open>\<^verbatim>\<open>/Avg\.\s*weight:\s*([\d.]+)/\<close>\<close>
  "avgWeightRegex =
     [(False, Lit ''Avg.''), (False, Star Space), (False, Lit ''weight:''), (False, Star Space),
      (True, Plus DigitDot)]"

definition viabilityRegex :: "item list" where
  \<comment> \<open>\<^verbatim>\<open>/Viability Ceiling:\s*(\d+)/\<close>\<close>
  "viabilityRegex = [(False, Lit ''Viability Ceiling:''), (False, Star Space), (True, Plus Digit)]"

definition percentRegex :: "item list" where
  \<comment> \<open>\<^verbatim>\<open>/\|\s+(.+?)\s+([\d.]+)%/\<close>\<close>
  "percentRegex =
     [(False, Lit ''|''), (False, Plus Space), (True, LazyPlus AnyChar), (False, Plus Space),
      (True, Plus DigitDot), (False, Lit ''%'')]"

definition spreadRegex :: "item list" where
  \<comment> \<open>\<^verbatim>\<open>/\|\s+([^:]+):(\d+)\/(\d+)\/(\d+)\/(\d+)\/(\d+)\/(\d+)\s+([\d.]+)%/\<close>\<close>
  "spreadRegex =
     [(False, Lit ''|''), (False, Plus Space), (True, Plus NotColon), (False, Lit '':''),
      (True, Plus Digit), (False, Lit ''/''), (True, Plus Digit), (False, Lit ''/''),
      (True, Plus Digit), (False, Lit ''/''), (True, Plus Digit), (False, Lit ''/''),
      (True, Plus Digit), (False, Lit ''/''), (True, Plus Digit), (False, Plus Space),
      (True, Plus DigitDot), (False, Lit ''%'')]"

text \<open>The sign \<^verbatim>\<open>\<plusminus>\<close> is two bytes in UTF-8.\<close>

definition plusMinus :: string where
  "plusMinus = [CHR 0xC2, CHR 0xB1]"

definition counterRegex :: "item list" where
  \<comment> \<open>\<^verbatim>\<open>/\|\s+(.+?)\s+([\d.]+)\s+\(([\d.]+)\<plusminus>([\d.]+)\)/\<close>\<close>
  "counterRegex =
     [(False, Lit ''|''), (False, Plus Space), (True, LazyPlus AnyChar), (False, Plus Space),
      (True, Plus DigitDot), (False, Plus Space), (False, Lit ''(''), (True, Plus DigitDot),
      (False, Lit plusMinus), (True, Plus DigitDot), (False, Lit '')'')]"

definition detailRegex :: "item list" where
  \<comment> \<open>\<^verbatim>\<open>/\(([\d.]+)\s+KOed\s+\/\s+([\d.]+)\s+switched\s+out\)/\<close>\<close>
  "detailRegex =
     [(False, Lit ''(''), (True, Plus DigitDot), (False, Plus Space), (False, Lit ''KOed''),
      (False, Plus Space), (False, Lit ''/''), (False, Plus Space), (True, Plus DigitDot),
      (False, Plus Space), (False, Lit ''switched''), (False, Plus Space), (False, Lit ''out)'')]"

text \<open>\<^verbatim>\<open>parseMetadata\<close>: each line may set each of the three fields.\<close>

definition parseMetadata_line :: "PokemonUsageData \<Rightarrow> string \<Rightarrow> PokemonUsageData" where
  "parseMetadata_line data line =
     (let d1 = (case regex_search rawCountRegex line of
                  Some (c # _) \<Rightarrow> data\<lparr>rawCount := parseInt c\<rparr>
                | _ \<Rightarrow> data);
          d2 = (case regex_search avgWeightRegex line of
                  Some (c # _) \<Rightarrow> d1\<lparr>avgWeight := parseFloat c\<rparr>
                | _ \<Rightarrow> d1);
          d3 = (case regex_search viabilityRegex line of
                  Some (c # _) \<Rightarrow> d2\<lparr>viabilityCeiling := parseInt c\<rparr>
                | _ \<Rightarrow> d2)
      in d3)"

definition parseMetadata :: "string list \<Rightarrow> PokemonUsageData \<Rightarrow> PokemonUsageData" where
  "parseMetadata lines data = foldl parseMetadata_line data lines"

text \<open>\<^verbatim>\<open>parsePercentageMap\<close>; \<open>minPercentage\<close> is the number the caller passes, \<open>0\<close> when
  it passes none.\<close>

definition parsePercentage_line ::
  "rat \<Rightarrow> (string \<times> rat) list \<Rightarrow> string \<Rightarrow> (string \<times> rat) list" where
  "parsePercentage_line minPercentage targetMap line =
     (case regex_search percentRegex line of
        Some (c1 # c2 # _) \<Rightarrow>
          (let nm = toLowerCase (trim c1) in
           case parseFloat c2 of
             None \<Rightarrow> targetMap
           | Some pct \<Rightarrow> (if pct \<ge> minPercentage then map_set targetMap nm pct else targetMap))
      | _ \<Rightarrow> targetMap)"

definition parsePercentageMap ::
  "string list \<Rightarrow> (string \<times> rat) list \<Rightarrow> rat option \<Rightarrow> (string \<times> rat) list" where
  "parsePercentageMap lines targetMap minPercentage =
     foldl (parsePercentage_line (case minPercentage of None \<Rightarrow> 0 | Some p \<Rightarrow> p)) targetMap lines"

definition parseSpread_line :: "StatSpread list \<Rightarrow> string \<Rightarrow> StatSpread list" where
  "parseSpread_line sps line =
     (case regex_search spreadRegex line of
        Some [c1, c2, c3, c4, c5, c6, c7, c8] \<Rightarrow>
          sps @ [\<lparr>nature = trim c1, hp = parseInt c2, atk = parseInt c3, dfn = parseInt c4,
                  spa = parseInt c5, spd = parseInt c6, spe = parseInt c7,
                  percentage = parseFloat c8\<rparr>]
      | _ \<Rightarrow> sps)"

definition parseSpreads :: "string list \<Rightarrow> PokemonUsageData \<Rightarrow> PokemonUsageData" where
  "parseSpreads lines data = data\<lparr>spreads := foldl parseSpread_line (spreads data) lines\<rparr>"

text \<open>\<^verbatim>\<open>parseChecksAndCounters\<close>: a row that matches takes the next row with it when that
  row holds the KO and switch percentages.\<close>

fun counters_loop :: "string list \<Rightarrow> CheckCounter list \<Rightarrow> CheckCounter list" where
  "counters_loop [] acc = acc"
| "counters_loop (line # rest) acc =
     (case regex_search counterRegex line of
        Some [c1, c2, c3, c4] \<Rightarrow>
          (let counter = \<lparr>cc_name = toLowerCase (trim c1), cc_score = parseFloat c2,
                          matchupPercent = parseFloat c3, confidenceMargin = parseFloat c4,
                          koPercent = Some 0, switchPercent = Some 0\<rparr>
           in case rest of
                [] \<Rightarrow> counters_loop rest (acc @ [counter])
              | nextLine # rest' \<Rightarrow>
                  (case regex_search detailRegex nextLine of
                     Some [d1, d2] \<Rightarrow>
                       counters_loop rest'
                         (acc @ [counter\<lparr>koPercent := parseFloat d1, switchPercent := parseFloat d2\<rparr>])
                   | _ \<Rightarrow> counters_loop rest (acc @ [counter])))
      | _ \<Rightarrow> counters_loop rest acc)"

definition parseChecksAndCounters :: "string list \<Rightarrow> PokemonUsageData \<Rightarrow> PokemonUsageData" where
  "parseChecksAndCounters lines data =
     data\<lparr>checksAndCounters := counters_loop lines (checksAndCounters data)\<rparr>"

definition parseSection ::
  "string \<Rightarrow> string list \<Rightarrow> PokemonUsageData \<Rightarrow> ParseOptions \<Rightarrow> PokemonUsageData" where
  "parseSection sectionName lines data options =
     (let lowerSection = toLowerCase sectionName in
      if lowerSection = ''abilities''
        then data\<lparr>abilities := parsePercentageMap lines (abilities data) None\<rparr>
      else if lowerSection = ''items''
        then data\<lparr>items := parsePercentageMap lines (items data) None\<rparr>
      else if lowerSection = ''spreads'' \<and> includeSpreads options \<noteq> Some False
        then parseSpreads lines data
      else if lowerSection = ''moves''
        then data\<lparr>moves := parsePercentageMap lines (moves data) (minMovePercentage options)\<rparr>
      else if lowerSection = ''tera types''
        then data\<lparr>teraTypes := parsePercentageMap lines (teraTypes data) None\<rparr>
      else if lowerSection = ''teammates''
        then data\<lparr>teammates := parsePercentageMap lines (teammates data) None\<rparr>
      else if lowerSection = ''checks and counters'' \<and> includeChecksAndCounters options \<noteq> Some False
        then parseChecksAndCounters lines data
      else data)"

text \<open>The state of the section loop of \<^verbatim>\<open>parsePokemonEntry\<close>.\<close>

record SectionState =
  currentSection :: string
  sectionContent :: "string list"
  inSectionContent :: bool
  sec_data :: PokemonUsageData

text \<open>\<^verbatim>\<open>if (currentSection && sectionContent.length > 0) parseSection(...)\<close>.\<close>

definition flush_section :: "ParseOptions \<Rightarrow> SectionState \<Rightarrow> PokemonUsageData" where
  "flush_section options st =
     (if currentSection st \<noteq> [] \<and> length (sectionContent st) > 0
      then parseSection (currentSection st) (sectionContent st) (sec_data st) options
      else sec_data st)"

text \<open>
  The section loop over the lines from index \<open>1\<close>.  At a divider the pending section is
  parsed; when the next line is a header row, it is consumed with the divider (the
  loop's extra \<^verbatim>\<open>i++\<close>), and it names the new section unless it looks like metadata.
\<close>

fun section_loop :: "ParseOptions \<Rightarrow> string list \<Rightarrow> SectionState \<Rightarrow> SectionState" where
  "section_loop options [] st = st"
| "section_loop options (line # rest) st =
     (if str_includes line ''+---'' then
        (let st1 = st\<lparr>sec_data := flush_section options st,
                       inSectionContent := False, sectionContent := []\<rparr>
         in case rest of
              [] \<Rightarrow> section_loop options rest st1
            | nextLine # rest' \<Rightarrow>
                (case regex_search barTextRegex nextLine of
                   Some (c # _) \<Rightarrow>
                     (let sectionName = trim c in
                      if \<not> str_includes sectionName ''Raw count''
                         \<and> \<not> str_includes sectionName ''Avg''
                         \<and> \<not> str_includes sectionName ''Viability''
                      then section_loop options rest'
                             (st1\<lparr>currentSection := sectionName, inSectionContent := True\<rparr>)
                      else section_loop options rest' st1)
                 | _ \<Rightarrow> section_loop options rest st1))
      else if inSectionContent st \<and> startsWith line '' |''
        then section_loop options rest (st\<lparr>sectionContent := sectionContent st @ [line]\<rparr>)
      else section_loop options rest st)"

text \<open>\<^verbatim>\<open>parsePokemonEntry\<close>: \<open>None\<close> is the \<^verbatim>\<open>null\<close> of an entry without a name row.\<close>

definition parsePokemonEntry :: "string \<Rightarrow> ParseOptions \<Rightarrow> PokemonUsageData option" where
  "parsePokemonEntry entryText options =
     (let lines = split_lines entryText in
      case (if 1 < length lines then regex_search barTextRegex (lines ! 1) else None) of
        Some (c # _) \<Rightarrow>
          (let data = parseMetadata (slice lines 3 8) (initialData (trim c));
               st = section_loop options (drop 1 lines)
                      \<lparr>currentSection = [], sectionContent = [], inSectionContent = False,
                       sec_data = data\<rparr>
           in Some (flush_section options st))
      | _ \<Rightarrow> None)"

section \<open>Reading a usage file\<close>

text \<open>
  The file system is a parameter: the text of the file at a path, or nothing when the
  file cannot be read; then \<^verbatim>\<open>readFileSync\<close> throws, and the error reaches the caller.
  No step of parsing one entry can throw, so the \<^verbatim>\<open>catch\<close> of \<^verbatim>\<open>parseUsageFile\<close> has no
  branch here.
\<close>

datatype error = FileUnavailable string

type_synonym file_system = "string \<Rightarrow> string option"

definition parse_entry_into :: "ParseOptions \<Rightarrow> usage_map \<Rightarrow> string \<Rightarrow> usage_map" where
  "parse_entry_into options result entry =
     (case parsePokemonEntry entry options of
        None \<Rightarrow> result
      | Some pokemon \<Rightarrow> map_set result (toLowerCase (name pokemon)) pokemon)"

definition parseContent :: "string \<Rightarrow> ParseOptions \<Rightarrow> usage_map" where
  "parseContent content options = foldl (parse_entry_into options) [] (splitIntoEntries content)"

definition parseUsageFile :: "file_system \<Rightarrow> string \<Rightarrow> ParseOptions \<Rightarrow> error + usage_map" where
  "parseUsageFile fs filePath options =
     (case fs filePath of
        None \<Rightarrow> Inl (FileUnavailable filePath)
      | Some content \<Rightarrow> Inr (parseContent content options))"

text \<open>Maps all of whose keys are their own lowercase form, and usage maps whose profiles
  have such move maps.\<close>

definition lower_keys :: "(string \<times> 'v) list \<Rightarrow> bool" where
  "lower_keys m = list_all (\<lambda>e. toLowerCase (fst e) = fst e) m"

definition lower_moves :: "usage_map \<Rightarrow> bool" where
  "lower_moves usageData = list_all (\<lambda>e. lower_keys (moves (snd e))) usageData"




text \<open>A usage file with two entries, each with the catch-all move row, and the file
  system that holds it.\<close>

definition two_entry_text :: string where
  "two_entry_text = join_lines
     ['' +---+ '',
      '' | A | '',
      '' +---+ '',
      '' | Raw count: 2 | '',
      '' +---+ '',
      '' | Moves | '',
      '' | Surf 90% | '',
      '' | Other 10% | '',
      '' +---+ '',
      '' | B | '',
      '' +---+ '',
      '' | Raw count: 1 | '',
      '' +---+ '',
      '' | Moves | '',
      '' | Other 100% | '']"

definition two_entry_fs :: file_system where
  "two_entry_fs p = (if p = ''data/gen2ou-1760.txt'' then Some two_entry_text else None)"

definition defaultOptions :: ParseOptions where
  "defaultOptions =
     \<lparr>includeSpreads = None, includeChecksAndCounters = None, minMovePercentage = None\<rparr>"




definition two_entry_map :: usage_map where
  "two_entry_map =
     [(''a'', (initialData ''A'')\<lparr>rawCount := 2, moves := [(''surf'', 90), (''other'', 10)]\<rparr>),
      (''b'', (initialData ''B'')\<lparr>rawCount := 1, moves := [(''other'', 100)]\<rparr>)]"

section \<open>Meta comparison\<close>

text \<open>\<^verbatim>\<open>xs.findIndex(p)\<close>: \<open>-1\<close> when no element satisfies \<open>p\<close>.\<close>

fun findIndex :: "('a \<Rightarrow> bool) \<Rightarrow> 'a list \<Rightarrow> int" where
  "findIndex p [] = - 1"
| "findIndex p (x # xs) =
     (if p x then 0 else (let r = findIndex p xs in if r < 0 then - 1 else r + 1))"

record TeamComposition =
  avgUsage :: rat
  tc_avgViability :: rat
  topTier :: "string list"
  offMeta :: "string list"
  metaScore :: rat

record CompositionState =
  totalUsage :: nat
  totalViability :: nat
  validCount :: nat
  cs_topTier :: "string list"
  cs_offMeta :: "string list"

definition composition_member ::
  "usage_map \<Rightarrow> PokemonUsageData list \<Rightarrow> CompositionState \<Rightarrow> string \<Rightarrow> CompositionState" where
  "composition_member usageData allPokemon st pokemonName =
     (case map_get usageData pokemonName of
        None \<Rightarrow> st
      | Some data \<Rightarrow>
          (let rank = findIndex (\<lambda>p. toLowerCase (name p) = pokemonName) allPokemon + 1;
               percentile = (1 - (of_int rank :: rat) / of_nat (length allPokemon)) * 100
           in \<lparr>totalUsage = totalUsage st + rawCount data,
               totalViability = totalViability st + viabilityCeiling data,
               validCount = validCount st + 1,
               cs_topTier = (if percentile \<ge> 90 then cs_topTier st @ [pokemonName]
                             else cs_topTier st),
               cs_offMeta = (if percentile \<ge> 90 then cs_offMeta st
                             else if percentile < 50 then cs_offMeta st @ [pokemonName]
                             else cs_offMeta st)\<rparr>))"

text \<open>\<^verbatim>\<open>allPokemon[0]?.rawCount || 1\<close>.\<close>

definition top_rawCount_or_one :: "PokemonUsageData list \<Rightarrow> nat" where
  "top_rawCount_or_one allPokemon =
     (case allPokemon of [] \<Rightarrow> 1 | p # _ \<Rightarrow> (if rawCount p = 0 then 1 else rawCount p))"

definition analyzeTeamComposition :: "string list \<Rightarrow> usage_map \<Rightarrow> TeamComposition" where
  "analyzeTeamComposition team usageData =
     (let normalizedTeam = map toLowerCase team;
          allPokemon = sortByUsage usageData;
          st = foldl (composition_member usageData allPokemon)
                 \<lparr>totalUsage = 0, totalViability = 0, validCount = 0,
                  cs_topTier = [], cs_offMeta = []\<rparr> normalizedTeam;
          avgU = (if validCount st > 0
                  then (of_nat (totalUsage st) :: rat) / of_nat (validCount st) else 0);
          avgV = (if validCount st > 0
                  then (of_nat (totalViability st) :: rat) / of_nat (validCount st) else 0);
          usageScore = min 100 (avgU / of_nat (top_rawCount_or_one allPokemon) * 100);
          viabilityScore = min 100 (avgV / 20)
      in \<lparr>avgUsage = avgU, tc_avgViability = avgV, topTier = cs_topTier st,
          offMeta = cs_offMeta st,
          metaScore = usageScore * (6 / 10) + viabilityScore * (4 / 10)\<rparr>)"

record MetaComparison =
  avgUsageRank :: rat
  avgViability :: rat
  offMetaPicks :: "string list"
  topTierPicks :: "string list"
  metaAlignmentScore :: rat

definition rank_member :: "PokemonUsageData list \<Rightarrow> int \<times> nat \<Rightarrow> string \<Rightarrow> int \<times> nat" where
  "rank_member allPokemon st pokemonName =
     (let rank = findIndex (\<lambda>p. toLowerCase (name p) = pokemonName) allPokemon + 1
      in if rank > 0 then (fst st + rank, snd st + 1) else st)"

definition generateMetaComparison :: "string list \<Rightarrow> usage_map \<Rightarrow> MetaComparison" where
  "generateMetaComparison team usageData =
     (let composition = analyzeTeamComposition team usageData;
          allPokemon = sortByUsage usageData;
          st = foldl (rank_member allPokemon) (0, 0) team;
          rk = (if snd st > 0 then (of_int (fst st) :: rat) / of_nat (snd st) else 0)
      in \<lparr>avgUsageRank = rk, avgViability = tc_avgViability composition,
          offMetaPicks = offMeta composition, topTierPicks = topTier composition,
          metaAlignmentScore = metaScore composition\<rparr>)"

section \<open>Report aggregator\<close>

record ComprehensiveReport =
  rp_team :: "string list"
  rp_synergy :: TeamSynergyAnalysis
  rp_weaknesses :: WeaknessReport
  rp_coverage :: CoverageReport
  rp_meta :: MetaComparison
  rp_redundancy :: RedundancyReport
  overallScore :: int
  summary :: "string list"
  recommendations :: "string list"

definition calculateOverallScore ::
  "TeamSynergyAnalysis \<Rightarrow> WeaknessReport \<Rightarrow> CoverageReport \<Rightarrow> RedundancyReport
     \<Rightarrow> MetaComparison \<Rightarrow> int" where
  "calculateOverallScore synergy weaknesses coverage redundancy meta =
     (let synergyWeight = 25 / 100; defenseWeight = 30 / 100; coverageWeight = 25 / 100;
          redundancyWeight = 10 / 100; metaWeight = 10 / 100;
          redundancyPenalty = max 0 (100 - redundancyScore redundancy);
          overall = syn_score synergy * synergyWeight
                  + defensiveScore weaknesses * defenseWeight
                  + coverageScore coverage * coverageWeight
                  + redundancyPenalty * redundancyWeight
                  + metaAlignmentScore meta * metaWeight
      in round overall)"

definition generateSummary ::
  "string list \<Rightarrow> TeamSynergyAnalysis \<Rightarrow> WeaknessReport \<Rightarrow> CoverageReport \<Rightarrow> MetaComparison
     \<Rightarrow> string list" where
  "generateSummary team synergy weaknesses coverage meta =
     [''Team of '' @ nat_to_string (length team) @ '' Pokemon'',
      (if syn_score synergy \<ge> 70
       then ''Strong team synergy ('' @ toFixed 0 (syn_score synergy) @ ''/100)''
       else if syn_score synergy \<ge> 40
       then ''Moderate team synergy ('' @ toFixed 0 (syn_score synergy) @ ''/100)''
       else ''Weak team synergy ('' @ toFixed 0 (syn_score synergy) @ ''/100)''),
      (if length (blindSpots weaknesses) > 0
       then nat_to_string (length (blindSpots weaknesses)) @ '' critical blind spot''
              @ (if length (blindSpots weaknesses) > 1 then ''s'' else '''')
       else ''No major blind spots identified''),
      (if length (gaps coverage) = 0 then ''Complete type coverage''
       else if length (gaps coverage) \<le> 3
       then ''Minor coverage gaps ('' @ nat_to_string (length (gaps coverage)) @ '' types)''
       else ''Significant coverage gaps ('' @ nat_to_string (length (gaps coverage)) @ '' types)''),
      (if (of_nat (length (topTierPicks meta)) :: rat) \<ge> of_nat (length team) * (1 / 2)
       then ''Meta-dominant team composition''
       else if (of_nat (length (offMetaPicks meta)) :: rat) \<ge> of_nat (length team) * (1 / 2)
       then ''Off-meta team composition''
       else ''Balanced meta alignment'')]"

definition generateRecommendations ::
  "TeamSynergyAnalysis \<Rightarrow> WeaknessReport \<Rightarrow> CoverageReport \<Rightarrow> RedundancyReport
     \<Rightarrow> string list" where
  "generateRecommendations synergy weaknesses coverage redundancy =
     (let r1 = (if syn_score synergy < 50
                then (case suggestedTeammates synergy of
                        [] \<Rightarrow> []
                      | best # _ \<Rightarrow>
                          [''Consider adding '' @ tm_name best @ '' for better synergy (''
                             @ toFixed 1 (tm_score best) @ ''% compatibility)''])
                else []);
          r2 = (case weakPairs synergy of
                  [] \<Rightarrow> []
                | weakest # _ \<Rightarrow>
                    [''Weak synergy between '' @ pokemon1 weakest @ '' and '' @ pokemon2 weakest
                       @ '' ('' @ toFixed 1 (pair_score weakest) @ ''%)'']);
          r3 = (if length (wr_suggestions weaknesses) > 0
                then slice (wr_suggestions weaknesses) 0 2 else []);
          r4 = (case cv_suggestions coverage of
                  [] \<Rightarrow> []
                | topSuggestion # _ \<Rightarrow>
                    [sg_pokemon topSuggestion @ '' could run '' @ sg_move topSuggestion @ '': ''
                       @ sg_reason topSuggestion]);
          r5 = (if length (gaps coverage) > 0
                then [''Missing coverage for: '' @ join_comma (slice (gaps coverage) 0 3)]
                else []);
          r6 = (if redundancyScore redundancy > 30
                then (case duplicateMoves redundancy of
                        [] \<Rightarrow> []
                      | firstDupe # _ \<Rightarrow>
                          [''Multiple Pokemon running '' @ fst firstDupe @ '': ''
                             @ join_comma (snd firstDupe)])
                else [])
      in slice (r1 @ r2 @ r3 @ r4 @ r5 @ r6) 0 8)"

text \<open>\<^verbatim>\<open>generateTeamReport\<close>: the third analysis may throw, and nothing catches it.\<close>

definition generateTeamReport ::
  "string list \<Rightarrow> usage_map \<Rightarrow> type_error + ComprehensiveReport" where
  "generateTeamReport team usageData =
     (let normalizedTeam = map toLowerCase team;
          synergy = calculateTeamSynergy normalizedTeam usageData;
          weaknesses = analyzeTeamWeaknesses normalizedTeam usageData
      in case analyzeCoverage normalizedTeam usageData of
           Inl e \<Rightarrow> Inl e
         | Inr coverage \<Rightarrow>
             (let redundancy = checkMoveRedundancy normalizedTeam usageData;
                  meta = generateMetaComparison normalizedTeam usageData
              in Inr \<lparr>rp_team = normalizedTeam, rp_synergy = synergy, rp_weaknesses = weaknesses,
                     rp_coverage = coverage, rp_meta = meta, rp_redundancy = redundancy,
                     overallScore =
                       calculateOverallScore synergy weaknesses coverage redundancy meta,
                     summary = generateSummary normalizedTeam synergy weaknesses coverage meta,
                     recommendations =
                       generateRecommendations synergy weaknesses coverage redundancy\<rparr>))"

section \<open>Profile repository\<close>

text \<open>
  The state of a \<^verbatim>\<open>SmogonModule\<close>.  A method returns its result with the new state, or
  the error it throws.  \<^verbatim>\<open>path.join\<close> is taken for a directory and a file name that
  need no normalisation.
\<close>

record SmogonModule =
  dataCache :: "(string \<times> usage_map) list"
  dataPath :: string

definition path_join :: "string \<Rightarrow> string \<Rightarrow> string" where
  "path_join dir file = dir @ ''/'' @ file"

definition newModule :: "string \<Rightarrow> string option \<Rightarrow> SmogonModule" where
  "newModule cwd dp =
     \<lparr>dataCache = [],
      dataPath = (case dp of
                    None \<Rightarrow> path_join cwd ''data''
                  | Some p \<Rightarrow> (if p = [] then path_join cwd ''data'' else p))\<rparr>"

definition loadFormat ::
  "file_system \<Rightarrow> SmogonModule \<Rightarrow> string \<Rightarrow> ParseOptions option \<Rightarrow> error + SmogonModule" where
  "loadFormat fs st format options =
     (if map_has (dataCache st) format then Inr st
      else (let filePath = path_join (dataPath st) (format @ ''.txt'') in
            case parseUsageFile fs filePath (case options of None \<Rightarrow> defaultOptions | Some opts \<Rightarrow> opts) of
              Inl e \<Rightarrow> Inl e
            | Inr usageData \<Rightarrow> Inr (st\<lparr>dataCache := map_set (dataCache st) format usageData\<rparr>)))"

definition ensureFormatLoaded :: "file_system \<Rightarrow> SmogonModule \<Rightarrow> string \<Rightarrow> error + SmogonModule" where
  "ensureFormatLoaded fs st format =
     (if \<not> map_has (dataCache st) format then loadFormat fs st format None else Inr st)"

definition getPokemon ::
  "file_system \<Rightarrow> SmogonModule \<Rightarrow> string \<Rightarrow> string
     \<Rightarrow> error + (PokemonUsageData option \<times> SmogonModule)" where
  "getPokemon fs st pokemonName format =
     (case ensureFormatLoaded fs st format of
        Inl e \<Rightarrow> Inl e
      | Inr st' \<Rightarrow>
          Inr (case map_get (dataCache st') format of
                 None \<Rightarrow> None
               | Some data \<Rightarrow> map_get data (toLowerCase pokemonName), st'))"

definition getAllPokemon ::
  "file_system \<Rightarrow> SmogonModule \<Rightarrow> string \<Rightarrow> error + (PokemonUsageData list \<times> SmogonModule)" where
  "getAllPokemon fs st format =
     (case ensureFormatLoaded fs st format of
        Inl e \<Rightarrow> Inl e
      | Inr st' \<Rightarrow>
          Inr (case map_get (dataCache st') format of
                 None \<Rightarrow> []
               | Some data \<Rightarrow> map_values data, st'))"

definition SM_getTopPokemon ::
  "file_system \<Rightarrow> SmogonModule \<Rightarrow> nat \<Rightarrow> string
     \<Rightarrow> error + (PokemonUsageData list \<times> SmogonModule)" where
  "SM_getTopPokemon fs st limit format =
     (case ensureFormatLoaded fs st format of
        Inl e \<Rightarrow> Inl e
      | Inr st' \<Rightarrow>
          Inr (case map_get (dataCache st') format of
                 None \<Rightarrow> []
               | Some data \<Rightarrow> getTopPokemon data limit, st'))"

record MoveUser =
  mu_pokemon :: string
  mu_percentage :: rat

definition findPokemonWithMove ::
  "file_system \<Rightarrow> SmogonModule \<Rightarrow> string \<Rightarrow> rat \<Rightarrow> string
     \<Rightarrow> error + (MoveUser list \<times> SmogonModule)" where
  "findPokemonWithMove fs st moveName minPercentage format =
     (case ensureFormatLoaded fs st format of
        Inl e \<Rightarrow> Inl e
      | Inr st' \<Rightarrow>
          Inr (case map_get (dataCache st') format of
                 None \<Rightarrow> []
               | Some data \<Rightarrow>
                   (let normalizedMove = toLowerCase moveName;
                        results = concat (map (\<lambda>e.
                            case map_get (moves (snd e)) normalizedMove of
                              None \<Rightarrow> []
                            | Some movePercentage \<Rightarrow>
                                (if movePercentage \<noteq> 0 \<and> movePercentage \<ge> minPercentage
                                 then [\<lparr>mu_pokemon = fst e, mu_percentage = movePercentage\<rparr>]
                                 else [])) data)
                    in js_sort (\<lambda>a b. Some (mu_percentage b - mu_percentage a)) results), st'))"

definition findCounters ::
  "file_system \<Rightarrow> SmogonModule \<Rightarrow> string \<Rightarrow> rat \<Rightarrow> string
     \<Rightarrow> error + (CounterScore list \<times> SmogonModule)" where
  "findCounters fs st threatName minScore format =
     (case ensureFormatLoaded fs st format of
        Inl e \<Rightarrow> Inl e
      | Inr st1 \<Rightarrow>
          (case getPokemon fs st1 threatName format of
             Inl e \<Rightarrow> Inl e
           | Inr r \<Rightarrow>
               (case fst r of
                  None \<Rightarrow> Inr ([], snd r)
                | Some threat \<Rightarrow>
                    Inr (js_sort (\<lambda>a b. js_sub (cs_score b) (cs_score a))
                           (map (\<lambda>c. \<lparr>cs_pokemon = cc_name c, cs_score = cc_score c\<rparr>)
                              (filter (\<lambda>c. js_ge (cc_score c) (Some minScore))
                                 (checksAndCounters threat))),
                         snd r))))"

text \<open>
  The team methods read \<^verbatim>\<open>this.dataCache.get(format)!\<close>; were the format missing after
  \<^verbatim>\<open>ensureFormatLoaded\<close> returned, the analysis would throw at its first use of the map.
  An exception of the analysis itself passes through the method; the format stays
  loaded.
\<close>

datatype 'a outcome = Threw error | TypeError SmogonModule | Returned 'a SmogonModule

definition with_format ::
  "file_system \<Rightarrow> SmogonModule \<Rightarrow> string \<Rightarrow> (usage_map \<Rightarrow> type_error + 'a) \<Rightarrow> 'a outcome" where
  "with_format fs st format analysis =
     (case ensureFormatLoaded fs st format of
        Inl e \<Rightarrow> Threw e
      | Inr st' \<Rightarrow>
          (case map_get (dataCache st') format of
             None \<Rightarrow> TypeError st'
           | Some data \<Rightarrow>
               (case analysis data of
                  Inl e \<Rightarrow> TypeError st'
                | Inr r \<Rightarrow> Returned r st')))"

definition SM_calculateTeamSynergy ::
  "file_system \<Rightarrow> SmogonModule \<Rightarrow> string list \<Rightarrow> string \<Rightarrow> TeamSynergyAnalysis outcome" where
  "SM_calculateTeamSynergy fs st team format =
     with_format fs st format (\<lambda>data. Inr (calculateTeamSynergy team data))"

definition SM_suggestTeammates ::
  "file_system \<Rightarrow> SmogonModule \<Rightarrow> string list \<Rightarrow> nat \<Rightarrow> string \<Rightarrow> TeammateScore list outcome" where
  "SM_suggestTeammates fs st currentTeam limit format =
     with_format fs st format (\<lambda>data. Inr (suggestTeammates currentTeam data limit))"

definition SM_analyzeTeamWeaknesses ::
  "file_system \<Rightarrow> SmogonModule \<Rightarrow> string list \<Rightarrow> string \<Rightarrow> WeaknessReport outcome" where
  "SM_analyzeTeamWeaknesses fs st team format =
     with_format fs st format (\<lambda>data. Inr (analyzeTeamWeaknesses team data))"

definition SM_findBlindSpots ::
  "file_system \<Rightarrow> SmogonModule \<Rightarrow> string list \<Rightarrow> string \<Rightarrow> BlindSpot list outcome" where
  "SM_findBlindSpots fs st team format =
     with_format fs st format (\<lambda>data. Inr (findBlindSpots team data))"

definition SM_analyzeCoverage ::
  "file_system \<Rightarrow> SmogonModule \<Rightarrow> string list \<Rightarrow> string \<Rightarrow> CoverageReport outcome" where
  "SM_analyzeCoverage fs st team format = with_format fs st format (analyzeCoverage team)"

definition SM_checkMoveRedundancy ::
  "file_system \<Rightarrow> SmogonModule \<Rightarrow> string list \<Rightarrow> string \<Rightarrow> RedundancyReport outcome" where
  "SM_checkMoveRedundancy fs st team format =
     with_format fs st format (\<lambda>data. Inr (checkMoveRedundancy team data))"

definition SM_generateTeamReport ::
  "file_system \<Rightarrow> SmogonModule \<Rightarrow> string list \<Rightarrow> string \<Rightarrow> ComprehensiveReport outcome" where
  "SM_generateTeamReport fs st team format = with_format fs st format (generateTeamReport team)"

definition clearCache :: "SmogonModule \<Rightarrow> string option \<Rightarrow> SmogonModule" where
  "clearCache st format =
     (case format of
        None \<Rightarrow> st\<lparr>dataCache := []\<rparr>
      | Some f \<Rightarrow> (if f = [] then st\<lparr>dataCache := []\<rparr>
                   else st\<lparr>dataCache := filter (\<lambda>e. fst e \<noteq> f) (dataCache st)\<rparr>))"

definition getLoadedFormats :: "SmogonModule \<Rightarrow> string list" where
  "getLoadedFormats st = map_keys (dataCache st)"

text \<open>The path of the file of a format, a module with nothing loaded, a file system
  without files, and three profiles, two of them with the same raw count.\<close>

definition formatPath :: "SmogonModule \<Rightarrow> string \<Rightarrow> string" where
  "formatPath st format = path_join (dataPath st) (format @ ''.txt'')"

definition fresh_module :: SmogonModule where
  "fresh_module = newModule ''.'' None"

definition no_files :: file_system where
  "no_files p = None"

definition three_profiles :: usage_map where
  "three_profiles =
     [(''a'', (initialData ''A'')\<lparr>rawCount := 5\<rparr>),
      (''b'', (initialData ''B'')\<lparr>rawCount := 9\<rparr>),
      (''c'', (initialData ''C'')\<lparr>rawCount := 5\<rparr>)]"

definition data_module :: SmogonModule where
  "data_module = newModule ''.'' (Some ''data'')"

definition loaded_module :: SmogonModule where
  "loaded_module = data_module\<lparr>dataCache := [(''gen2ou-1760'', three_profiles)]\<rparr>"

text \<open>
  The profile map a query works on, with the state the query leaves: for a loaded
  format the cached map; for a format not loaded the parse of its file under the
  default options, cached from then on; nothing when that file cannot be read.
\<close>

definition format_data :: "file_system \<Rightarrow> SmogonModule \<Rightarrow> string \<Rightarrow> (usage_map \<times> SmogonModule) option" where
  "format_data fs st format =
     (case map_get (dataCache st) format of
        Some data \<Rightarrow> Some (data, st)
      | None \<Rightarrow>
          (case fs (formatPath st format) of
             None \<Rightarrow> None
           | Some content \<Rightarrow>
               Some (parseContent content defaultOptions,
                     st\<lparr>dataCache := map_set (dataCache st) format
                            (parseContent content defaultOptions)\<rparr>)))"

text \<open>
  A module whose cache holds only profile maps with lowercase move names: the state of
  every module, as \<^verbatim>\<open>loadFormat\<close> alone writes the cache and stores what the parser
  returns.
\<close>

definition parsed_cache :: "SmogonModule \<Rightarrow> bool" where
  "parsed_cache st = list_all (\<lambda>e. lower_moves (snd e)) (dataCache st)"

section \<open>Verification: entry splitter\<close>

lemma zip_tl_snoc:
  "ms \<noteq> [] \<Longrightarrow> zip ms (tl ms @ [x]) = zip (butlast ms) (tl ms) @ [(last ms, x)]"
  by (induction ms) (auto simp: neq_Nil_conv)

lemma slice_Suc:
  "a \<le> k \<Longrightarrow> k < length xs \<Longrightarrow> slice xs a (Suc k) = slice xs a k @ [xs ! k]"
  unfolding slice_def
  by (simp add: Suc_diff_le take_Suc_conv_app_nth)

lemma slice_nonempty:
  "a < b \<Longrightarrow> a < length xs \<Longrightarrow> slice xs a b \<noteq> []"
  unfolding slice_def by simp

lemma markers_below_lt: "m \<in> set (markers_below lines k) \<Longrightarrow> m < k"
  by (simp add: markers_below_def)

lemma split_loop_invariant:
  "k \<le> length lines \<Longrightarrow>
   foldl (split_step lines) ([], []) [0..<k] =
     (map (entry_text lines) (zip (butlast (markers_below lines k)) (tl (markers_below lines k))),
      if markers_below lines k = [] then []
      else slice lines (last (markers_below lines k) - 3) k)"
proof (induction k)
  case 0
  then show ?case by (simp add: markers_below_def)
next
  case (Suc k)
  let ?ms = "markers_below lines k"
  have k: "k < length lines" using Suc.prems by simp
  have IH: "foldl (split_step lines) ([], []) [0..<k] =
     (map (entry_text lines) (zip (butlast ?ms) (tl ?ms)),
      if ?ms = [] then [] else slice lines (last ?ms - 3) k)"
    using Suc by simp
  have last_lt: "?ms \<noteq> [] \<Longrightarrow> last ?ms < k"
    using markers_below_lt[of "last ?ms" lines k] by simp
  have cur_ne: "?ms \<noteq> [] \<Longrightarrow> slice lines (last ?ms - 3) k \<noteq> []"
    using last_lt k by (intro slice_nonempty) auto
  have step: "foldl (split_step lines) ([], []) [0..<Suc k] =
      split_step lines (map (entry_text lines) (zip (butlast ?ms) (tl ?ms)),
      if ?ms = [] then [] else slice lines (last ?ms - 3) k) k"
    by (simp add: IH)
  show ?case
  proof (cases "str_includes (lines ! k) rawCountMarker")
    case True
    then have ms': "markers_below lines (Suc k) = ?ms @ [k]"
      by (simp add: markers_below_def)
    show ?thesis
    proof (cases "?ms = []")
      case True
      with \<open>str_includes (lines ! k) rawCountMarker\<close> ms' show ?thesis
        unfolding step by (simp add: split_step_def)
    next
      case False
      have z: "zip (butlast (?ms @ [k])) (tl (?ms @ [k])) =
               zip (butlast ?ms) (tl ?ms) @ [(last ?ms, k)]"
        using False zip_tl_snoc[of ?ms k] by simp
      from False True cur_ne show ?thesis
        unfolding step ms' z by (simp add: split_step_def entry_text_def)
    qed
  next
    case False
    then have ms': "markers_below lines (Suc k) = ?ms"
      by (simp add: markers_below_def)
    show ?thesis
    proof (cases "?ms = []")
      case True
      with False ms' show ?thesis unfolding step by (simp add: split_step_def)
    next
      case ne: False
      have "slice lines (last ?ms - 3) (Suc k) = slice lines (last ?ms - 3) k @ [lines ! k]"
        using last_lt[OF ne] k by (intro slice_Suc) auto
      with False ne cur_ne ms' show ?thesis unfolding step by (simp add: split_step_def)
    qed
  qed
qed

lemma splitIntoEntries_eq:
  "splitIntoEntries content =
     map (entry_text (split_lines content)) (entry_bounds (split_lines content))"
proof -
  let ?lines = "split_lines content"
  let ?ms = "marker_indices ?lines"
  have ms: "markers_below ?lines (length ?lines) = ?ms"
    by (simp add: markers_below_def marker_indices_def)
  have inv: "foldl (split_step ?lines) ([], []) [0..<length ?lines] =
     (map (entry_text ?lines) (zip (butlast ?ms) (tl ?ms)),
      if ?ms = [] then [] else slice ?lines (last ?ms - 3) (length ?lines))"
    using split_loop_invariant[of "length ?lines" ?lines] unfolding ms by blast
  show ?thesis
  proof (cases "?ms = []")
    case True
    then show ?thesis unfolding splitIntoEntries_def Let_def inv by (simp add: entry_bounds_def)
  next
    case False
    have "last ?ms < length ?lines"
      using False markers_below_lt[of "last ?ms" ?lines "length ?lines"] unfolding ms by simp
    then have "slice ?lines (last ?ms - 3) (length ?lines) \<noteq> []"
      by (intro slice_nonempty) auto
    then show ?thesis using False zip_tl_snoc[of ?ms "length ?lines"]
      unfolding splitIntoEntries_def Let_def inv
      by (simp add: entry_bounds_def entry_text_def Let_def)
  qed
qed

lemmas split_eval = splitIntoEntries_def split_step_def newline_def slice_def
  rawCountMarker_def startsWith_def Let_def

text \<open>
  Claim C10, as the code has it.  The splitter emits exactly one entry per line that
  contains the marker \<^verbatim>\<open>Raw count:\<close>, in order.  The entry of the marker at line \<open>i\<close>
  is the text of the lines from \<open>max(0, i - 3)\<close> up to, and not including, the next
  marker line; the entry of the last marker runs to the end of the text, however short
  it is.  A text with no marker line has no entry.  A marker on one of the first three
  lines has fewer than three lines before it in its entry: the loop starts at
  \<open>max(0, i - 3)\<close>.
\<close>

theorem C10_splitIntoEntries_entries:
  "splitIntoEntries content =
     map (entry_text (split_lines content)) (entry_bounds (split_lines content))
   \<and> length (splitIntoEntries content) = length (marker_indices (split_lines content))
   \<and> entry_bounds (split_lines content) =
       zip (marker_indices (split_lines content))
           (tl (marker_indices (split_lines content)) @ [length (split_lines content)])"
proof -
  have len: "length (entry_bounds (split_lines content)) =
             length (marker_indices (split_lines content))"
    by (simp add: entry_bounds_def Let_def)
  show ?thesis
    using len by (simp add: splitIntoEntries_eq) (simp add: entry_bounds_def Let_def)
qed

text \<open>
  Claim C10 as stated fails where a marker stands on one of the first three lines: with
  the marker on the second line, the entry holds one line before the marker line, not
  three.
\<close>

theorem C10_counterexample:
  "splitIntoEntries (join_lines [''x'', ''Raw count: 7'', ''y'']) =
     [join_lines [''x'', ''Raw count: 7'', ''y'']]
   \<and> length (takeWhile (\<lambda>l. \<not> str_includes l rawCountMarker)
         (split_lines (hd (splitIntoEntries (join_lines [''x'', ''Raw count: 7'', ''y'']))))) = 1"
  by (simp add: split_eval)

section \<open>Verification: synergy engine\<close>

lemma synergy_inner_absent:
  "map_get ud p2 = None \<Longrightarrow> synergy_inner ud p1 d1 st p2 = st"
  by (simp add: synergy_inner_def)

lemma synergy_inner_present:
  "map_get ud p1 = Some d1 \<Longrightarrow> map_get ud p2 = Some d2 \<Longrightarrow>
   synergy_inner ud p1 d1 st p2 = record_pair ud st (p1, p2)"
  by (simp add: synergy_inner_def record_pair_def pair_synergy_def teammate_percent_def
      synergy_pair_def Let_def)

lemma synergy_inner_loop:
  "map_get ud p1 = Some d1 \<Longrightarrow>
   foldl (synergy_inner ud p1 d1) st rest =
   foldl (record_pair ud) st
     (filter (\<lambda>pr. map_has ud (fst pr) \<and> map_has ud (snd pr)) (map (Pair p1) rest))"
proof (induction rest arbitrary: st)
  case Nil
  then show ?case by simp
next
  case (Cons p2 rest)
  show ?case
  proof (cases "map_get ud p2")
    case None
    then show ?thesis using Cons
      by (simp add: synergy_inner_absent map_has_def map_get_def)
  next
    case (Some d2)
    then show ?thesis using Cons
      by (simp add: synergy_inner_present map_has_def map_get_def)
  qed
qed

lemma synergy_outer_pairs:
  "synergy_outer ud team st = foldl (record_pair ud) st (present_pairs ud team)"
proof (induction team arbitrary: st)
  case Nil
  then show ?case by (simp add: present_pairs_def)
next
  case (Cons p1 rest)
  show ?case
  proof (cases "map_get ud p1")
    case None
    then have "filter (\<lambda>pr. map_has ud (fst pr) \<and> map_has ud (snd pr)) (map (Pair p1) rest) = []"
      by (simp add: map_has_def map_get_def filter_empty_conv)
    then show ?thesis using None Cons by (simp add: present_pairs_def)
  next
    case (Some d1)
    then show ?thesis using Cons
      by (simp add: present_pairs_def synergy_inner_loop)
  qed
qed






lemmas lower_eval = toLowerCase_def toLowerChar_def isUpper_def char_of_def bit_Suc_0_iff

lemma js_sort_Nil: "js_sort cmp [] = []"
  by (simp add: js_sort_def)

lemma js_sort_single: "js_sort cmp [x] = [x]"
  by (simp add: js_sort_def)

lemma synergy_state_pairs:
  "synergy_outer ud (map toLowerCase team)
       \<lparr>st_pairScores = [], st_strong = [], st_weak = []\<rparr> =
   foldl (record_pair ud) \<lparr>st_pairScores = [], st_strong = [], st_weak = []\<rparr>
     (present_pairs ud (map toLowerCase team))"
  by (rule synergy_outer_pairs)














section \<open>Verification: sorting and usage ranking\<close>

lemma js_insert_insort_key:
  assumes "\<And>x y. js_positive (cmp x y) \<longleftrightarrow> key y < key x"
  shows "js_insert cmp x ys = insort_key key x ys"
  by (induction ys) (auto simp: assms)

lemma js_sort_sort_key:
  fixes key :: "'a \<Rightarrow> 'b::linorder"
  assumes "\<And>x y. js_positive (cmp x y) \<longleftrightarrow> key y < key x"
  shows "js_sort cmp xs = sort_key key xs"
proof -
  have "js_insert cmp = insort_key key"
    using js_insert_insort_key[of cmp key, OF assms] by (intro ext) 
  then show ?thesis by (simp add: js_sort_def sort_key_def)
qed

lemma sortByUsage_sort_key:
  "sortByUsage ud = sort_key (\<lambda>p. - int (rawCount p)) (map_values ud)"
  unfolding sortByUsage_def
  by (rule js_sort_sort_key) (auto simp: js_positive_def)

lemma sortByUsage_descending:
  "sorted_wrt (\<lambda>a b. rawCount b \<le> rawCount a) (sortByUsage ud)"
proof -
  have "sorted (map (\<lambda>p. - int (rawCount p)) (sortByUsage ud))"
    by (simp add: sortByUsage_sort_key)
  then show ?thesis
    by (simp add: sorted_map sorted_wrt_iff_nth_less)
qed

lemma sortByUsage_stable:
  "filter (\<lambda>p. rawCount p = k) (sortByUsage ud) = filter (\<lambda>p. rawCount p = k) (map_values ud)"
proof -
  have "filter (\<lambda>p. - int (rawCount p) = - int k) (sort_key (\<lambda>p. - int (rawCount p)) (map_values ud))
      = filter (\<lambda>p. - int (rawCount p) = - int k) (map_values ud)"
    by (rule sort_key_stable)
  then show ?thesis by (simp add: sortByUsage_sort_key)
qed

lemma sortByUsage_mset: "mset (sortByUsage ud) = mset (map_values ud)"
  by (simp add: sortByUsage_sort_key)

lemma getTopPokemon_length: "length (getTopPokemon ud n) = min n (length ud)"
  by (simp add: getTopPokemon_def slice_def sortByUsage_sort_key map_values_def)

lemma getTopPokemon_descending:
  "sorted_wrt (\<lambda>a b. rawCount b \<le> rawCount a) (getTopPokemon ud n)"
  unfolding getTopPokemon_def slice_def
  using sortByUsage_descending[of ud] by (simp add: sorted_wrt_take)

section \<open>Verification: threat and counter engine\<close>

lemma map_get_map_set:
  "map_get (map_set m k v) k' = (if k' = k then Some v else map_get m k')"
  by (induction m) (auto simp: map_get_def)

lemma map_has_get: "map_has m k \<longleftrightarrow> map_get m k \<noteq> None"
  by (simp add: map_has_def map_get_def)






















lemma js_insert_set: "set (js_insert cmp x ys) = insert x (set ys)"
  by (induction ys) auto

lemma js_sort_set: "set (js_sort cmp xs) = set xs"
  by (induction xs) (auto simp: js_sort_def js_insert_set)

























section \<open>Verification: coverage engine\<close>

lemma type_error_eq: "(e :: type_error) = NotIterable"
  by (cases e) simp

lemma chart_strong_types: "set (strong_against ty) \<subseteq> set ALL_TYPES"
proof -
  have "\<forall>e\<in>set TYPE_CHART. set (fst (snd e)) \<subseteq> set ALL_TYPES"
    by (simp add: TYPE_CHART_def ALL_TYPES_def)
  then have "\<And>k eff. (k, eff) \<in> set TYPE_CHART \<Longrightarrow> set (fst eff) \<subseteq> set ALL_TYPES"
    by fastforce
  then show ?thesis
    by (cases "map_of TYPE_CHART (property_key ty)")
       (auto simp: strong_against_def object_get_def map_get_def dest!: map_of_SomeD)
qed

lemma map_set_keys_same: "k \<in> set (map fst m) \<Longrightarrow> map fst (map_set m k v) = map fst m"
  by (induction m) auto

lemma cover_type_val:
  "cov_val (cover_type cbt c) t = cov_val cbt t + (if t = c then 1 else 0)"
  by (simp add: cov_val_def cover_type_def map_get_map_set)

lemma cover_type_keys:
  "c \<in> set (map fst cbt) \<Longrightarrow> map fst (cover_type cbt c) = map fst cbt"
  by (simp add: cover_type_def map_set_keys_same)

lemma cover_types_val:
  "cov_val (foldl cover_type cbt cs) t = cov_val cbt t + count_list cs t"
  by (induction cs arbitrary: cbt) (auto simp: cover_type_val)

lemma cover_types_keys:
  "set cs \<subseteq> set (map fst cbt) \<Longrightarrow> map fst (foldl cover_type cbt cs) = map fst cbt"
  by (induction cs arbitrary: cbt) (auto simp: cover_type_keys simp del: set_map)

text \<open>One top move: when the loop body throws, and what it does to the coverage map
  when it does not.\<close>

lemma coverage_move_raises:
  "coverage_move st e = Inl NotIterable \<longleftrightarrow> list_ex raises_on (move_types (fst e))"
  by (auto simp: coverage_move_def move_types_def raises_on_def Let_def
      split: option.splits property.splits)

lemma coverage_move_val:
  "coverage_move st e = Inr st' \<Longrightarrow>
   cov_val (snd st') t =
     cov_val (snd st) t + sum_list (map (\<lambda>ty. count_list (strong_against ty) t) (move_types (fst e)))"
  by (auto simp: coverage_move_def move_types_def Let_def cover_types_val strong_against_def
      split: option.splits property.splits if_splits)

lemma coverage_move_keys:
  assumes "coverage_move st e = Inr st'" "map fst (snd st) = ALL_TYPES"
  shows "map fst (snd st') = ALL_TYPES"
proof -
  have "map fst (foldl cover_type (snd st) (fst eff)) = map fst (snd st)"
    if "object_get TYPE_CHART (property_key ty) = Own eff" for ty eff
    using chart_strong_types[of ty] that assms(2)
    by (intro cover_types_keys) (simp add: strong_against_def)
  then show ?thesis using assms
    by (auto simp: coverage_move_def Let_def split: option.splits property.splits if_splits)
qed

lemma coverage_moves_raises:
  "try_fold coverage_move st es = Inl NotIterable \<longleftrightarrow>
     list_ex raises_on (concat (map (\<lambda>e. move_types (fst e)) es))"
proof (induction es arbitrary: st)
  case Nil
  then show ?case by simp
next
  case (Cons e es)
  show ?case
  proof (cases "coverage_move st e")
    case (Inl x)
    then have "list_ex raises_on (move_types (fst e))"
      using coverage_move_raises[of st e] by (simp add: type_error_eq[of x])
    then show ?thesis using Inl by (simp add: type_error_eq[of x])
  next
    case (Inr s1)
    then have "\<not> list_ex raises_on (move_types (fst e))"
      using coverage_move_raises[of st e] by simp
    then show ?thesis using Inr Cons[of s1] by simp
  qed
qed

lemma coverage_moves_val:
  "try_fold coverage_move st es = Inr st' \<Longrightarrow>
   cov_val (snd st') t =
     cov_val (snd st) t +
     sum_list (map (\<lambda>ty. count_list (strong_against ty) t) (concat (map (\<lambda>e. move_types (fst e)) es)))"
proof (induction es arbitrary: st)
  case Nil
  then show ?case by simp
next
  case (Cons e es)
  then obtain s1 where s1: "coverage_move st e = Inr s1"
    and r: "try_fold coverage_move s1 es = Inr st'"
    by (auto split: sum.splits)
  from Cons.IH[OF r] coverage_move_val[OF s1, of t] show ?case by simp
qed

lemma coverage_moves_keys:
  "try_fold coverage_move st es = Inr st' \<Longrightarrow> map fst (snd st) = ALL_TYPES \<Longrightarrow>
   map fst (snd st') = ALL_TYPES"
proof (induction es arbitrary: st)
  case Nil
  then show ?case by simp
next
  case (Cons e es)
  then obtain s1 where s1: "coverage_move st e = Inr s1"
    and r: "try_fold coverage_move s1 es = Inr st'"
    by (auto split: sum.splits)
  from Cons.IH[OF r coverage_move_keys[OF s1 Cons.prems(2)]] show ?case .
qed

text \<open>One team member.\<close>

lemma coverage_member_raises:
  "coverage_member ud st m = Inl NotIterable \<longleftrightarrow> list_ex raises_on (member_move_types ud m)"
proof (cases "map_get ud m")
  case None
  then show ?thesis by (simp add: coverage_member_def member_move_types_def)
next
  case (Some d)
  show ?thesis
  proof (cases "try_fold coverage_move ([], fst st) (topMoves d)")
    case (Inl x)
    then show ?thesis
      using Some coverage_moves_raises[of "([], fst st)" "topMoves d"]
      by (simp add: coverage_member_def member_move_types_def type_error_eq[of x])
  next
    case (Inr r)
    then show ?thesis
      using Some coverage_moves_raises[of "([], fst st)" "topMoves d"]
      by (simp add: coverage_member_def member_move_types_def)
  qed
qed

lemma coverage_member_val:
  assumes "coverage_member ud st m = Inr st'"
  shows "cov_val (fst st') t =
     cov_val (fst st) t +
     sum_list (map (\<lambda>ty. count_list (strong_against ty) t) (member_move_types ud m))"
proof (cases "map_get ud m")
  case None
  then show ?thesis using assms by (auto simp: coverage_member_def member_move_types_def)
next
  case (Some d)
  with assms obtain r where r: "try_fold coverage_move ([], fst st) (topMoves d) = Inr r"
    and st': "st' = (snd r, map_set (snd st) m (fst r))"
    by (auto simp: coverage_member_def split: sum.splits)
  from coverage_moves_val[OF r, of t] show ?thesis
    by (simp add: st' member_move_types_def Some)
qed

lemma coverage_member_keys:
  assumes "coverage_member ud st m = Inr st'" "map fst (fst st) = ALL_TYPES"
  shows "map fst (fst st') = ALL_TYPES"
proof (cases "map_get ud m")
  case None
  then show ?thesis using assms by (auto simp: coverage_member_def)
next
  case (Some d)
  with assms obtain r where r: "try_fold coverage_move ([], fst st) (topMoves d) = Inr r"
    and st': "st' = (snd r, map_set (snd st) m (fst r))"
    by (auto simp: coverage_member_def split: sum.splits)
  from coverage_moves_keys[OF r] assms(2) show ?thesis by (simp add: st')
qed

text \<open>The whole team.\<close>

lemma coverage_members_raises:
  "try_fold (coverage_member ud) st ms = Inl NotIterable \<longleftrightarrow>
     list_ex raises_on (team_move_types ud ms)"
proof (induction ms arbitrary: st)
  case Nil
  then show ?case by (simp add: team_move_types_def)
next
  case (Cons m ms)
  show ?case
  proof (cases "coverage_member ud st m")
    case (Inl x)
    then have "list_ex raises_on (member_move_types ud m)"
      using coverage_member_raises[of ud st m] by (simp add: type_error_eq[of x])
    then show ?thesis using Inl by (simp add: team_move_types_def type_error_eq[of x])
  next
    case (Inr s1)
    then have "\<not> list_ex raises_on (member_move_types ud m)"
      using coverage_member_raises[of ud st m] by simp
    then show ?thesis using Inr Cons[of s1] by (simp add: team_move_types_def)
  qed
qed

lemma coverage_members_val:
  "try_fold (coverage_member ud) st ms = Inr st' \<Longrightarrow>
   cov_val (fst st') t =
     cov_val (fst st) t +
     sum_list (map (\<lambda>ty. count_list (strong_against ty) t) (team_move_types ud ms))"
proof (induction ms arbitrary: st)
  case Nil
  then show ?case by (simp add: team_move_types_def)
next
  case (Cons m ms)
  then obtain s1 where s1: "coverage_member ud st m = Inr s1"
    and r: "try_fold (coverage_member ud) s1 ms = Inr st'"
    by (auto split: sum.splits)
  from Cons.IH[OF r] coverage_member_val[OF s1, of t] show ?case
    by (simp add: team_move_types_def)
qed

lemma coverage_members_keys:
  "try_fold (coverage_member ud) st ms = Inr st' \<Longrightarrow> map fst (fst st) = ALL_TYPES \<Longrightarrow>
   map fst (fst st') = ALL_TYPES"
proof (induction ms arbitrary: st)
  case Nil
  then show ?case by simp
next
  case (Cons m ms)
  then obtain s1 where s1: "coverage_member ud st m = Inr s1"
    and r: "try_fold (coverage_member ud) s1 ms = Inr st'"
    by (auto split: sum.splits)
  from Cons.IH[OF r coverage_member_keys[OF s1 Cons.prems(2)]] show ?case .
qed

lemma initialCoverage_eq: "initialCoverage = map (\<lambda>t. (t, 0)) ALL_TYPES"
  by (simp add: initialCoverage_def ALL_TYPES_def)

lemma ALL_TYPES_distinct: "distinct ALL_TYPES"
  by (simp add: ALL_TYPES_def)

lemma ALL_TYPES_length: "length ALL_TYPES = 17"
  by (simp add: ALL_TYPES_def)

lemma coverage_final:
  assumes "try_fold (coverage_member ud) (initialCoverage, []) nt = Inr st"
  shows "map fst (fst st) = ALL_TYPES"
    and "cov_val (fst st) t = coverage_count ud nt t"
proof -
  have k0: "map fst (fst (initialCoverage, [] :: (string \<times> string list) list)) = ALL_TYPES"
    by (simp add: initialCoverage_eq comp_def)
  show "map fst (fst st) = ALL_TYPES"
    by (rule coverage_members_keys[OF assms k0])
  have "cov_val initialCoverage t = 0"
    by (auto simp: cov_val_def map_get_def initialCoverage_eq map_of_map_restrict restrict_map_def
        comp_def split: option.splits dest!: map_of_SomeD)
  then show "cov_val (fst st) t = coverage_count ud nt t"
    using coverage_members_val[OF assms, of t] by (simp add: coverage_count_def)
qed

lemma keyed_filter:
  assumes "distinct (map fst m)"
  shows "map fst (filter (\<lambda>e. P (snd e)) m) = filter (\<lambda>k. P (case map_get m k of None \<Rightarrow> d | Some v \<Rightarrow> v)) (map fst m)"
proof -
  have "\<And>e. e \<in> set m \<Longrightarrow> map_get m (fst e) = Some (snd e)"
    using assms by (simp add: map_get_def)
  then have "filter (\<lambda>e. P (snd e)) m = filter (\<lambda>e. P (case map_get m (fst e) of None \<Rightarrow> d | Some v \<Rightarrow> v)) m"
    by (intro filter_cong) auto
  then show ?thesis by (simp add: filter_map comp_def)
qed

lemma analyzeCoverage_raises:
  "analyzeCoverage team ud = Inl NotIterable \<longleftrightarrow>
     list_ex raises_on (team_move_types ud (map toLowerCase team))"
proof (cases "try_fold (coverage_member ud) (initialCoverage, []) (map toLowerCase team)")
  case (Inl x)
  then show ?thesis
    using coverage_members_raises[of ud "(initialCoverage, [])" "map toLowerCase team"]
    by (simp add: analyzeCoverage_def Let_def type_error_eq[of x])
next
  case (Inr st)
  then show ?thesis
    using coverage_members_raises[of ud "(initialCoverage, [])" "map toLowerCase team"]
    by (simp add: analyzeCoverage_def Let_def)
qed

lemma analyzeCoverage_returns:
  "(\<exists>r. analyzeCoverage team ud = Inr r) \<longleftrightarrow>
     \<not> list_ex raises_on (team_move_types ud (map toLowerCase team))"
proof (cases "analyzeCoverage team ud")
  case (Inl x)
  then show ?thesis using analyzeCoverage_raises[of team ud] by (simp add: type_error_eq[of x])
next
  case (Inr r)
  then show ?thesis using analyzeCoverage_raises[of team ud] by simp
qed

lemma analyzeCoverage_state:
  assumes "analyzeCoverage team ud = Inr r"
  obtains st where
    "try_fold (coverage_member ud) (initialCoverage, []) (map toLowerCase team) = Inr st"
    "gaps r = map fst (filter (\<lambda>e. snd e = 0) (fst st))"
    "coverageScore r =
       of_nat (length (filter (\<lambda>c. c > 0) (map_values (fst st)))) / of_nat (length ALL_TYPES) * 100"
    "cv_suggestions r =
       generateCoverageSuggestions (map fst (filter (\<lambda>e. snd e = 0) (fst st))) (snd st) ud
         (map toLowerCase team)"
  using assms by (auto simp: analyzeCoverage_def Let_def split: sum.splits)

lemma analyzeCoverage_gaps:
  assumes "analyzeCoverage team ud = Inr r"
  shows "gaps r = filter (\<lambda>t. coverage_count ud (map toLowerCase team) t = 0) ALL_TYPES"
proof -
  from assms obtain st where
    st: "try_fold (coverage_member ud) (initialCoverage, []) (map toLowerCase team) = Inr st"
    and g: "gaps r = map fst (filter (\<lambda>e. snd e = 0) (fst st))"
    by (rule analyzeCoverage_state)
  have k: "map fst (fst st) = ALL_TYPES" by (rule coverage_final[OF st])
  then have d: "distinct (map fst (fst st))" by (simp add: ALL_TYPES_distinct)
  have "map fst (filter (\<lambda>e. snd e = 0) (fst st)) =
        filter (\<lambda>t. cov_val (fst st) t = 0) (map fst (fst st))"
    unfolding cov_val_def by (rule keyed_filter[OF d])
  then show ?thesis by (simp add: g k coverage_final(2)[OF st])
qed

lemma analyzeCoverage_score:
  assumes "analyzeCoverage team ud = Inr r"
  shows "coverageScore r =
     of_nat (length (filter (\<lambda>t. coverage_count ud (map toLowerCase team) t > 0) ALL_TYPES)) / 17 * 100"
proof -
  from assms obtain st where
    st: "try_fold (coverage_member ud) (initialCoverage, []) (map toLowerCase team) = Inr st"
    and s: "coverageScore r =
       of_nat (length (filter (\<lambda>c. c > 0) (map_values (fst st)))) / of_nat (length ALL_TYPES) * 100"
    by (rule analyzeCoverage_state)
  have k: "map fst (fst st) = ALL_TYPES" by (rule coverage_final[OF st])
  then have d: "distinct (map fst (fst st))" by (simp add: ALL_TYPES_distinct)
  have "length (filter (\<lambda>c. c > 0) (map_values (fst st))) = length (filter (\<lambda>e. snd e > 0) (fst st))"
    by (simp add: map_values_def filter_map comp_def)
  also have "\<dots> = length (map fst (filter (\<lambda>e. snd e > 0) (fst st)))" by simp
  also have "map fst (filter (\<lambda>e. snd e > 0) (fst st)) =
      filter (\<lambda>t. cov_val (fst st) t > 0) (map fst (fst st))"
    unfolding cov_val_def by (rule keyed_filter[OF d])
  finally have "length (filter (\<lambda>c. c > 0) (map_values (fst st))) =
      length (filter (\<lambda>t. coverage_count ud (map toLowerCase team) t > 0) ALL_TYPES)"
    by (simp add: k coverage_final(2)[OF st])
  then show ?thesis by (simp add: s ALL_TYPES_length)
qed

lemma coverage_count_zero:
  "coverage_count ud nt t = 0 \<longleftrightarrow> (\<forall>ty\<in>set (team_move_types ud nt). t \<notin> set (strong_against ty))"
  by (auto simp: coverage_count_def count_list_0_iff)

text \<open>The top four moves are the first four of the moves in the stable order of
  descending usage.\<close>

lemma topMoves_top4: "topMoves d = take 4 (sort_key (\<lambda>e. - snd e) (moves d))"
proof -
  have "js_sort (\<lambda>a b. Some (snd b - snd a)) (moves d) = sort_key (\<lambda>e. - snd e) (moves d)"
    by (rule js_sort_sort_key) (auto simp: js_positive_def)
  then show ?thesis by (simp add: topMoves_def slice_def)
qed

text \<open>
  What \<^verbatim>\<open>analyzeCoverage\<close> does for every team and every profile map.  It throws exactly
  when a top-four move of a team member resolves to a type whose name is an inherited
  property of the chart.  Otherwise it returns a report whose gaps are the types with
  coverage count zero, in the order of the type list, and whose coverage score is the
  number of types with a positive count, divided by \<open>17\<close>, times \<open>100\<close>; when some
  resolved move type is strong against every type other than Ghost and Psychic and
  none is strong against Ghost or Psychic, the gaps are Ghost and Psychic.
\<close>

lemma analyzeCoverage_general:
  "(analyzeCoverage team ud = Inl NotIterable \<longleftrightarrow>
      list_ex raises_on (team_move_types ud (map toLowerCase team)))
   \<and> (\<forall>r. analyzeCoverage team ud = Inr r \<longrightarrow>
        gaps r = filter (\<lambda>t. coverage_count ud (map toLowerCase team) t = 0) ALL_TYPES
      \<and> coverageScore r =
          of_nat (length (filter (\<lambda>t. coverage_count ud (map toLowerCase team) t > 0) ALL_TYPES))
            / 17 * 100
      \<and> ((\<forall>t\<in>set ALL_TYPES. t \<noteq> ''Ghost'' \<and> t \<noteq> ''Psychic'' \<longrightarrow>
             (\<exists>ty\<in>set (team_move_types ud (map toLowerCase team)). t \<in> set (strong_against ty)))
           \<and> (\<forall>ty\<in>set (team_move_types ud (map toLowerCase team)).
                 ''Ghost'' \<notin> set (strong_against ty) \<and> ''Psychic'' \<notin> set (strong_against ty))
         \<longrightarrow> set (gaps r) = {''Ghost'', ''Psychic''}))
   \<and> (\<forall>t. coverage_count ud (map toLowerCase team) t = 0 \<longleftrightarrow>
          (\<forall>ty\<in>set (team_move_types ud (map toLowerCase team)). t \<notin> set (strong_against ty)))
   \<and> (\<forall>m d. map_get ud m = Some d \<longrightarrow>
          member_move_types ud m = concat (map (\<lambda>e. move_types (fst e))
                                      (take 4 (sort_key (\<lambda>e. - snd e) (moves d)))))"
proof (intro conjI allI impI)
  show "analyzeCoverage team ud = Inl NotIterable \<longleftrightarrow>
      list_ex raises_on (team_move_types ud (map toLowerCase team))"
    by (rule analyzeCoverage_raises)
  show "coverage_count ud (map toLowerCase team) t = 0 \<longleftrightarrow>
          (\<forall>ty\<in>set (team_move_types ud (map toLowerCase team)). t \<notin> set (strong_against ty))" for t
    by (rule coverage_count_zero)
  show "member_move_types ud m = concat (map (\<lambda>e. move_types (fst e))
                                      (take 4 (sort_key (\<lambda>e. - snd e) (moves d))))"
    if "map_get ud m = Some d" for m d
    using that by (simp add: member_move_types_def topMoves_top4)
next
  fix r assume r: "analyzeCoverage team ud = Inr r"
  show g: "gaps r = filter (\<lambda>t. coverage_count ud (map toLowerCase team) t = 0) ALL_TYPES"
    using r by (rule analyzeCoverage_gaps)
  show "coverageScore r =
          of_nat (length (filter (\<lambda>t. coverage_count ud (map toLowerCase team) t > 0) ALL_TYPES))
            / 17 * 100"
    using r by (rule analyzeCoverage_score)
  let ?tys = "team_move_types ud (map toLowerCase team)"
  assume h: "(\<forall>t\<in>set ALL_TYPES. t \<noteq> ''Ghost'' \<and> t \<noteq> ''Psychic'' \<longrightarrow>
          (\<exists>ty\<in>set ?tys. t \<in> set (strong_against ty)))
        \<and> (\<forall>ty\<in>set ?tys.
              ''Ghost'' \<notin> set (strong_against ty) \<and> ''Psychic'' \<notin> set (strong_against ty))"
  have in_all: "''Ghost'' \<in> set ALL_TYPES" "''Psychic'' \<in> set ALL_TYPES"
    by (simp_all add: ALL_TYPES_def)
  have "set (gaps r) = {t \<in> set ALL_TYPES. \<forall>ty\<in>set ?tys. t \<notin> set (strong_against ty)}"
    by (simp add: g coverage_count_zero)
  also have "\<dots> = {''Ghost'', ''Psychic''}"
    using h in_all by blast
  finally show "set (gaps r) = {''Ghost'', ''Psychic''}" .
qed

lemmas regex_eval = regex_search.simps match_items.simps first_match.simps atom_lengths.simps
  add_capture_def run_length_def cls_mem.simps is_space_def is_digit_def is_word_def isUpper_def
  startsWith_def

text \<open>The scenario of claim C2 on two profiles: the fifth move of the first profile, a
  Ghost move, is not among its top four, and Ghost and Psychic stay uncovered.\<close>

lemmas coverage_eval = coverage_profiles_def initialData_def lower_eval map_get_def
  team_move_types_def member_move_types_def move_types_def topMoves_def js_sort_def
  js_positive_def slice_def getMoveType_def moveTypeMap_def startsWith_def object_get_def

lemma coverage_profiles_types:
  "team_move_types coverage_profiles (map toLowerCase [''Machamp'', ''Starmie'']) =
     [TypeName ''Fighting'', TypeName ''Ground'', TypeName ''Electric'', TypeName ''Fire'',
      TypeName ''Psychic'', TypeName ''Ice'']"
  by (simp add: coverage_eval)

lemma strong_against_eval:
  "strong_against (TypeName ''Fighting'') = [''Normal'', ''Ice'', ''Rock'', ''Dark'', ''Steel'']"
  "strong_against (TypeName ''Ground'') = [''Fire'', ''Electric'', ''Poison'', ''Rock'', ''Steel'']"
  "strong_against (TypeName ''Electric'') = [''Water'', ''Flying'']"
  "strong_against (TypeName ''Fire'') = [''Grass'', ''Ice'', ''Bug'', ''Steel'']"
  "strong_against (TypeName ''Psychic'') = [''Fighting'', ''Poison'']"
  "strong_against (TypeName ''Ice'') = [''Grass'', ''Ground'', ''Flying'', ''Dragon'']"
  by (simp_all add: strong_against_def object_get_def property_key_def TYPE_CHART_def map_get_def)

lemma coverage_profiles_report:
  "\<exists>r. analyzeCoverage [''Machamp'', ''Starmie''] coverage_profiles = Inr r
       \<and> gaps r = [''Psychic'', ''Ghost''] \<and> coverageScore r = 15 / 17 * 100"
proof -
  let ?nt = "map toLowerCase [''Machamp'', ''Starmie'']"
  have "\<not> list_ex raises_on (team_move_types coverage_profiles ?nt)"
    unfolding coverage_profiles_types
    by (simp add: raises_on_def object_get_def property_key_def TYPE_CHART_def map_get_def)
  then obtain r where r: "analyzeCoverage [''Machamp'', ''Starmie''] coverage_profiles = Inr r"
    using analyzeCoverage_returns by blast
  have cnt: "filter (\<lambda>t. coverage_count coverage_profiles ?nt t = 0) ALL_TYPES
       = [''Psychic'', ''Ghost'']"
    "length (filter (\<lambda>t. 0 < coverage_count coverage_profiles ?nt t) ALL_TYPES) = 15"
    unfolding coverage_count_def coverage_profiles_types
    by (simp_all add: ALL_TYPES_def strong_against_eval)
  from analyzeCoverage_gaps[OF r] analyzeCoverage_score[OF r] r show ?thesis
    unfolding cnt by simp
qed


section \<open>Verification: lowercased move names\<close>

lemma toLowerChar_not_upper: "\<not> isUpper (toLowerChar c)"
  by (auto simp: toLowerChar_def isUpper_def)

lemma toLowerCase_idem: "toLowerCase (toLowerCase s) = toLowerCase s"
  by (induction s) (auto simp: toLowerCase_def toLowerChar_def isUpper_def)

lemma lower_no_upper: "toLowerCase s = s \<Longrightarrow> c \<in> set s \<Longrightarrow> \<not> isUpper c"
proof -
  assume a: "toLowerCase s = s" and c: "c \<in> set s"
  then have "c \<in> set (map toLowerChar s)" by (simp add: toLowerCase_def)
  then obtain d where "c = toLowerChar d" by auto
  then show ?thesis by (simp add: toLowerChar_not_upper)
qed

lemma map_set_subset: "set (map_set m k v) \<subseteq> insert (k, v) (set m)"
  by (induction m) auto

lemma map_set_lower_keys:
  "lower_keys m \<Longrightarrow> toLowerCase k = k \<Longrightarrow> lower_keys (map_set m k v)"
  using map_set_subset[of m k v] by (auto simp: lower_keys_def list_all_iff)

lemma parsePercentage_line_lower:
  "lower_keys m \<Longrightarrow> lower_keys (parsePercentage_line p m line)"
  by (auto simp: parsePercentage_line_def Let_def map_set_lower_keys toLowerCase_idem
      split: option.splits list.splits)

lemma parsePercentageMap_lower:
  "lower_keys m \<Longrightarrow> lower_keys (parsePercentageMap ls m p)"
  unfolding parsePercentageMap_def
  by (induction ls arbitrary: m) (auto simp: parsePercentage_line_lower)

lemma parseSection_lower:
  "lower_keys (moves data) \<Longrightarrow> lower_keys (moves (parseSection n ls data opts))"
  by (auto simp: parseSection_def Let_def parsePercentageMap_lower parseSpreads_def
      parseChecksAndCounters_def)

lemma flush_section_lower:
  "lower_keys (moves (sec_data st)) \<Longrightarrow> lower_keys (moves (flush_section opts st))"
  by (simp add: flush_section_def parseSection_lower)

lemma section_loop_invariant:
  "(\<forall>st. P (sec_data st) \<longrightarrow> P (flush_section opts st)) \<Longrightarrow> P (sec_data st)
     \<Longrightarrow> P (sec_data (section_loop opts ls st))"
proof (induction opts ls st rule: section_loop.induct)
  case (1 options st)
  then show ?case by simp
next
  case (2 options line rest st)
  show ?case
    apply (subst section_loop.simps(2))
    using 2
    apply (auto simp del: section_loop.simps simp: Let_def split: list.splits option.splits)
    done
qed

lemma section_loop_lower:
  "lower_keys (moves (sec_data st)) \<Longrightarrow> lower_keys (moves (sec_data (section_loop opts ls st)))"
  by (rule section_loop_invariant[where P = "\<lambda>d. lower_keys (moves d)"])
     (auto simp: flush_section_lower)

lemma parseMetadata_moves: "moves (parseMetadata ls d) = moves d"
  unfolding parseMetadata_def
  by (induction ls arbitrary: d)
     (auto simp: parseMetadata_line_def Let_def split: option.splits list.splits)

lemma parsePokemonEntry_lower:
  assumes "parsePokemonEntry e opts = Some d"
  shows "lower_keys (moves d)"
proof -
  from assms obtain c where
    d: "d = flush_section opts
          (section_loop opts (drop 1 (split_lines e))
            \<lparr>currentSection = [], sectionContent = [], inSectionContent = False,
             sec_data = parseMetadata (slice (split_lines e) 3 8) (initialData (trim c))\<rparr>)"
    by (auto simp: parsePokemonEntry_def Let_def split: option.splits list.splits if_splits)
  have "lower_keys (moves (parseMetadata (slice (split_lines e) 3 8) (initialData (trim c))))"
    by (simp add: parseMetadata_moves initialData_def lower_keys_def)
  then show ?thesis unfolding d
    by (intro flush_section_lower section_loop_lower) simp
qed

lemma parse_entry_into_lower:
  "lower_moves m \<Longrightarrow> lower_moves (parse_entry_into opts m e)"
  using map_set_subset
  by (fastforce simp: parse_entry_into_def lower_moves_def list_all_iff
      dest: parsePokemonEntry_lower split: option.splits)

lemma parseContent_lower: "lower_moves (parseContent content opts)"
proof -
  have "lower_moves m \<Longrightarrow> lower_moves (foldl (parse_entry_into opts) m es)" for m es
    by (induction es arbitrary: m) (auto simp: parse_entry_into_lower)
  then show ?thesis by (simp add: parseContent_def lower_moves_def)
qed




lemma moveTypeMap_keys_upper: "\<forall>k\<in>set (map fst moveTypeMap). \<exists>c\<in>set k. isUpper c"
  by (simp add: moveTypeMap_def isUpper_def)

text \<open>Of the names of the properties of \<^verbatim>\<open>Object.prototype\<close>, two are their own lowercase
  form.\<close>

lemma prototype_keys_upper:
  "\<forall>k\<in>set object_prototype_keys.
     k = ''constructor'' \<or> k = ''__proto__'' \<or> (\<exists>c\<in>set k. isUpper c)"
  by (simp add: object_prototype_keys_def isUpper_def)

lemma lower_prototype_keys:
  assumes a: "toLowerCase k = k"
  shows "k \<in> set object_prototype_keys \<longleftrightarrow> k = ''constructor'' \<or> k = ''__proto__''"
proof
  assume "k \<in> set object_prototype_keys"
  with prototype_keys_upper
  have "k = ''constructor'' \<or> k = ''__proto__'' \<or> (\<exists>c\<in>set k. isUpper c)" by blast
  with lower_no_upper[OF a] show "k = ''constructor'' \<or> k = ''__proto__''" by blast
next
  assume "k = ''constructor'' \<or> k = ''__proto__''"
  then show "k \<in> set object_prototype_keys" by (auto simp: object_prototype_keys_def)
qed

lemma lower_getMoveType:
  assumes a: "toLowerCase k = k"
  shows "getMoveType k =
     (if k = ''constructor'' \<or> k = ''__proto__'' then Some (PrototypeValue k) else None)"
proof -
  have hp: "\<not> startsWith k ''Hidden Power''"
  proof
    assume "startsWith k ''Hidden Power''"
    then have "take (length ''Hidden Power'') k = ''Hidden Power''" by (simp only: startsWith_def)
    then have "CHR ''H'' \<in> set (take (length ''Hidden Power'') k)" by simp
    then have "CHR ''H'' \<in> set k" by (rule in_set_takeD)
    from lower_no_upper[OF a this] show False by (simp add: isUpper_def)
  qed
  have "map_get moveTypeMap k = None"
  proof (cases "map_get moveTypeMap k")
    case None
    then show ?thesis .
  next
    case (Some v)
    then have "k \<in> set (map fst moveTypeMap)"
      by (auto simp: map_get_def dest!: map_of_SomeD intro: rev_image_eqI)
    with moveTypeMap_keys_upper obtain c where "c \<in> set k" "isUpper c" by blast
    with lower_no_upper[OF a] show ?thesis by blast
  qed
  then have "object_get moveTypeMap k =
      (if k = ''constructor'' \<or> k = ''__proto__'' then Inherited k else Undefined)"
    using lower_prototype_keys[OF a] by (simp add: object_get_def)
  with hp show ?thesis by (simp add: getMoveType_def)
qed

text \<open>An inherited value is no key of the chart: it is strong against nothing, and the
  collecting loop does not throw for it.\<close>

lemma prototype_value_chart:
  "object_get TYPE_CHART (property_key (PrototypeValue k)) = Undefined"
  by (simp add: property_key_def object_get_def map_get_def TYPE_CHART_def
      object_prototype_keys_def)

lemma lower_move_types:
  assumes "toLowerCase k = k" "ty \<in> set (move_types k)"
  shows "strong_against ty = [] \<and> \<not> raises_on ty"
proof -
  from assms obtain k' where "ty = PrototypeValue k'"
    by (auto simp: move_types_def lower_getMoveType split: if_splits)
  then show ?thesis by (simp add: strong_against_def raises_on_def prototype_value_chart)
qed

lemma topMoves_subset: "set (topMoves d) \<subseteq> set (moves d)"
  unfolding topMoves_def slice_def
  using set_take_subset[of 4 "js_sort (\<lambda>a b. Some (snd b - snd a)) (moves d)"]
  by (simp add: js_sort_set)

lemma lower_moves_get:
  "lower_moves ud \<Longrightarrow> map_get ud m = Some d \<Longrightarrow> lower_keys (moves d)"
  by (auto simp: lower_moves_def list_all_iff map_get_def dest!: map_of_SomeD)

lemma lower_topMoves:
  "lower_keys (moves d) \<Longrightarrow> e \<in> set (topMoves d) \<Longrightarrow> toLowerCase (fst e) = fst e"
  using topMoves_subset[of d] by (auto simp: lower_keys_def list_all_iff)

lemma lower_member_move_types:
  assumes "lower_moves ud" "ty \<in> set (member_move_types ud m)"
  shows "strong_against ty = [] \<and> \<not> raises_on ty"
proof (cases "map_get ud m")
  case None
  then show ?thesis using assms(2) by (simp add: member_move_types_def)
next
  case (Some d)
  with assms(2) obtain e where e: "e \<in> set (topMoves d)" and ty: "ty \<in> set (move_types (fst e))"
    by (auto simp: member_move_types_def)
  from lower_topMoves[OF lower_moves_get[OF assms(1) Some] e] ty show ?thesis
    by (rule lower_move_types)
qed

lemma lower_team_move_types:
  assumes "lower_moves ud" "ty \<in> set (team_move_types ud nt)"
  shows "strong_against ty = [] \<and> \<not> raises_on ty"
  using assms lower_member_move_types by (fastforce simp: team_move_types_def)


lemma lower_returns:
  assumes "lower_moves ud"
  shows "\<exists>r. analyzeCoverage team ud = Inr r"
  using lower_team_move_types[OF assms]
  by (simp add: analyzeCoverage_returns list_ex_iff)





















lemma two_entry_parse: "parseContent two_entry_text defaultOptions = two_entry_map"
  by code_simp





section \<open>Verification: profile repository\<close>

lemma ensure_loaded:
  "map_get (dataCache st) fmt = Some data \<Longrightarrow> ensureFormatLoaded fs st fmt = Inr st"
  by (simp add: ensureFormatLoaded_def map_has_get)

lemma ensure_readable:
  "\<not> map_has (dataCache st) fmt \<Longrightarrow> fs (formatPath st fmt) = Some content \<Longrightarrow>
   ensureFormatLoaded fs st fmt =
     Inr (st\<lparr>dataCache := map_set (dataCache st) fmt (parseContent content defaultOptions)\<rparr>)"
  by (simp add: ensureFormatLoaded_def loadFormat_def parseUsageFile_def formatPath_def Let_def)

lemma ensure_unreadable:
  "\<not> map_has (dataCache st) fmt \<Longrightarrow> fs (formatPath st fmt) = None \<Longrightarrow>
   ensureFormatLoaded fs st fmt = Inl (FileUnavailable (formatPath st fmt))"
  by (simp add: ensureFormatLoaded_def loadFormat_def parseUsageFile_def formatPath_def Let_def)

lemma ensure_cases:
  "(map_has (dataCache st) fmt \<and> ensureFormatLoaded fs st fmt = Inr st)
   \<or> (\<exists>content. \<not> map_has (dataCache st) fmt \<and> fs (formatPath st fmt) = Some content \<and>
        ensureFormatLoaded fs st fmt =
          Inr (st\<lparr>dataCache := map_set (dataCache st) fmt (parseContent content defaultOptions)\<rparr>))
   \<or> (\<not> map_has (dataCache st) fmt \<and> fs (formatPath st fmt) = None \<and>
        ensureFormatLoaded fs st fmt = Inl (FileUnavailable (formatPath st fmt)))"
  using ensure_readable[of st fmt fs] ensure_unreadable[of st fmt fs]
  by (cases "map_has (dataCache st) fmt"; cases "fs (formatPath st fmt)")
     (auto simp: ensureFormatLoaded_def)

lemma ensure_result_loaded:
  "ensureFormatLoaded fs st fmt = Inr st' \<Longrightarrow> map_has (dataCache st') fmt"
  using ensure_cases[of st fmt fs] by (auto simp: map_has_get map_get_map_set)

lemma loadFormat_cached:
  "map_has (dataCache st) fmt \<Longrightarrow> loadFormat fs st fmt opts = Inr st"
  by (simp add: loadFormat_def)

lemma loadFormat_result_cached:
  "loadFormat fs st fmt opts = Inr st1 \<Longrightarrow> map_has (dataCache st1) fmt"
  by (auto simp: loadFormat_def Let_def map_has_get map_get_map_set split: if_splits sum.splits)

lemma loadFormat_first:
  "\<not> map_has (dataCache st) fmt \<Longrightarrow> loadFormat fs st fmt opts = Inr st1 \<Longrightarrow>
   \<exists>content. fs (formatPath st fmt) = Some content \<and>
     st1 = st\<lparr>dataCache := map_set (dataCache st) fmt
        (parseContent content (case opts of None \<Rightarrow> defaultOptions | Some x \<Rightarrow> x))\<rparr>"
  by (auto simp: loadFormat_def Let_def parseUsageFile_def formatPath_def split: option.splits)


text \<open>
  Claim C8.  After a call of \<^verbatim>\<open>loadFormat\<close> that returned, a second call for the same
  format id returns the same module state whatever the file system and the options
  are: it reads and parses nothing, and the stored maps are unchanged.  A first call on
  a format that was not cached read the file once and stored the parse of its text.
\<close>

theorem C8_loadFormat_idempotent:
  "loadFormat fs st fmt opts = Inr st1 \<longrightarrow>
     (\<forall>fs' opts'. loadFormat fs' st1 fmt opts' = Inr st1)
     \<and> (\<not> map_has (dataCache st) fmt \<longrightarrow>
          (\<exists>content. fs (formatPath st fmt) = Some content
             \<and> st1 = st\<lparr>dataCache := map_set (dataCache st) fmt
                   (parseContent content (case opts of None \<Rightarrow> defaultOptions | Some x \<Rightarrow> x))\<rparr>))
     \<and> (map_has (dataCache st) fmt \<longrightarrow> st1 = st)"
proof (intro impI conjI allI)
  assume l: "loadFormat fs st fmt opts = Inr st1"
  show "loadFormat fs' st1 fmt opts' = Inr st1" for fs' opts'
    using loadFormat_result_cached[OF l] by (rule loadFormat_cached)
  show "\<exists>content. fs (formatPath st fmt) = Some content
             \<and> st1 = st\<lparr>dataCache := map_set (dataCache st) fmt
                   (parseContent content (case opts of None \<Rightarrow> defaultOptions | Some x \<Rightarrow> x))\<rparr>"
    if "\<not> map_has (dataCache st) fmt"
    using that l by (rule loadFormat_first)
  show "st1 = st" if "map_has (dataCache st) fmt"
    using that l by (simp add: loadFormat_def)
qed

lemmas module_eval = data_module_def newModule_def formatPath_def path_join_def
  loadFormat_def ensureFormatLoaded_def map_has_def map_get_def Let_def

theorem C8_witness:
  "loadFormat two_entry_fs data_module ''gen2ou-1760'' None =
     Inr (data_module\<lparr>dataCache := [(''gen2ou-1760'', two_entry_map)]\<rparr>)
   \<and> loadFormat no_files (data_module\<lparr>dataCache := [(''gen2ou-1760'', two_entry_map)]\<rparr>)
         ''gen2ou-1760'' (Some defaultOptions) =
     Inr (data_module\<lparr>dataCache := [(''gen2ou-1760'', two_entry_map)]\<rparr>)"
proof -
  have l: "loadFormat two_entry_fs data_module ''gen2ou-1760'' None =
     Inr (data_module\<lparr>dataCache := [(''gen2ou-1760'', two_entry_map)]\<rparr>)"
    by (simp add: module_eval parseUsageFile_def two_entry_fs_def two_entry_parse)
  from C8_loadFormat_idempotent[of two_entry_fs data_module "''gen2ou-1760''" None
      "data_module\<lparr>dataCache := [(''gen2ou-1760'', two_entry_map)]\<rparr>", THEN mp, OF l,
      THEN conjunct1, THEN spec, THEN spec, of no_files "Some defaultOptions"]
  show ?thesis using l by simp
qed

text \<open>
  Claim C7.  For a loaded format with \<open>t\<close> profiles, \<^verbatim>\<open>getTopPokemon(n)\<close> returns the
  first \<open>n\<close> profiles of the profiles sorted by raw count, descending: a list of length
  \<open>min(n, t)\<close>, sorted descending by raw count, in which profiles of equal raw count
  keep the order they have in the map.
\<close>

theorem C7_getTopPokemon:
  "map_get (dataCache st) fmt = Some data \<longrightarrow>
     SM_getTopPokemon fs st n fmt = Inr (getTopPokemon data n, st)
     \<and> length (getTopPokemon data n) = min n (length data)
     \<and> sorted_wrt (\<lambda>a b. rawCount b \<le> rawCount a) (getTopPokemon data n)
     \<and> getTopPokemon data n = take n (sortByUsage data)
     \<and> mset (sortByUsage data) = mset (map_values data)
     \<and> (\<forall>k. filter (\<lambda>p. rawCount p = k) (sortByUsage data) =
              filter (\<lambda>p. rawCount p = k) (map_values data))"
proof (intro impI conjI allI)
  assume g: "map_get (dataCache st) fmt = Some data"
  show "SM_getTopPokemon fs st n fmt = Inr (getTopPokemon data n, st)"
    using g by (simp add: SM_getTopPokemon_def ensure_loaded[OF g])
  show "length (getTopPokemon data n) = min n (length data)" by (rule getTopPokemon_length)
  show "sorted_wrt (\<lambda>a b. rawCount b \<le> rawCount a) (getTopPokemon data n)"
    by (rule getTopPokemon_descending)
  show "getTopPokemon data n = take n (sortByUsage data)"
    by (simp add: getTopPokemon_def slice_def)
  show "mset (sortByUsage data) = mset (map_values data)" by (rule sortByUsage_mset)
  show "filter (\<lambda>p. rawCount p = k) (sortByUsage data) =
              filter (\<lambda>p. rawCount p = k) (map_values data)" for k
    by (rule sortByUsage_stable)
qed

theorem C7_witness:
  "map_get (dataCache loaded_module) ''gen2ou-1760'' = Some three_profiles
   \<and> SM_getTopPokemon no_files loaded_module 2 ''gen2ou-1760'' =
       Inr ([(initialData ''B'')\<lparr>rawCount := 9\<rparr>, (initialData ''A'')\<lparr>rawCount := 5\<rparr>],
            loaded_module)
   \<and> length (getTopPokemon three_profiles 2) = 2"
proof -
  have g: "map_get (dataCache loaded_module) ''gen2ou-1760'' = Some three_profiles"
    by (simp add: loaded_module_def map_get_def)
  have e: "getTopPokemon three_profiles 2 =
       [(initialData ''B'')\<lparr>rawCount := 9\<rparr>, (initialData ''A'')\<lparr>rawCount := 5\<rparr>]"
    by (simp add: getTopPokemon_def sortByUsage_def three_profiles_def map_values_def js_sort_def
        js_positive_def slice_def initialData_def)
  have "SM_getTopPokemon no_files loaded_module 2 ''gen2ou-1760'' =
       Inr (getTopPokemon three_profiles 2, loaded_module)"
    using C7_getTopPokemon[of loaded_module "''gen2ou-1760''" three_profiles no_files 2,
        THEN mp, OF g, THEN conjunct1] .
  then show ?thesis using g unfolding e by simp
qed


lemma ensure_format_data_None:
  "format_data fs st fmt = None \<Longrightarrow>
   ensureFormatLoaded fs st fmt = Inl (FileUnavailable (formatPath st fmt))"
  by (auto simp: format_data_def map_has_get intro!: ensure_unreadable split: option.splits)

lemma ensure_format_data_Some:
  "format_data fs st fmt = Some (data, st') \<Longrightarrow>
   ensureFormatLoaded fs st fmt = Inr st' \<and> map_get (dataCache st') fmt = Some data"
  by (auto simp: format_data_def map_has_get map_get_map_set ensure_loaded ensure_readable
      split: option.splits)

lemma with_format_None:
  "format_data fs st fmt = None \<Longrightarrow>
   with_format fs st fmt f = Threw (FileUnavailable (formatPath st fmt))"
  by (simp add: with_format_def ensure_format_data_None)

lemma with_format_Some:
  "format_data fs st fmt = Some (data, st') \<Longrightarrow>
   with_format fs st fmt f = (case f data of Inl e \<Rightarrow> TypeError st' | Inr r \<Rightarrow> Returned r st')"
  by (simp add: with_format_def ensure_format_data_Some)

text \<open>The cache holds parsed maps only, and on a parsed map neither \<^verbatim>\<open>analyzeCoverage\<close>
  nor \<^verbatim>\<open>generateTeamReport\<close> throws.\<close>

lemma lower_report: "lower_moves ud \<Longrightarrow> \<exists>r. generateTeamReport team ud = Inr r"
  using lower_returns[of ud "map toLowerCase team"]
  by (auto simp: generateTeamReport_def Let_def)

lemma map_set_list_all: "list_all P m \<Longrightarrow> P (k, v) \<Longrightarrow> list_all P (map_set m k v)"
  by (induction m) auto

lemma newModule_parsed: "parsed_cache (newModule cwd dp)"
  by (simp add: parsed_cache_def newModule_def)

lemma loadFormat_parsed:
  "parsed_cache st \<Longrightarrow> loadFormat fs st fmt opts = Inr st1 \<Longrightarrow> parsed_cache st1"
  by (auto simp: loadFormat_def Let_def parsed_cache_def parseUsageFile_def parseContent_lower
      intro!: map_set_list_all split: if_splits option.splits sum.splits)

lemma clearCache_parsed: "parsed_cache st \<Longrightarrow> parsed_cache (clearCache st fo)"
  by (auto simp: clearCache_def parsed_cache_def list_all_iff split: option.splits)

lemma format_data_parsed:
  assumes "format_data fs st fmt = Some (data, st')" "parsed_cache st"
  shows "lower_moves data" and "parsed_cache st'"
proof -
  show "lower_moves data"
    using assms
    by (auto simp: format_data_def parsed_cache_def list_all_iff map_get_def parseContent_lower
        split: option.splits dest!: map_of_SomeD)
  show "parsed_cache st'"
    using assms
    by (auto simp: format_data_def parsed_cache_def parseContent_lower
        intro!: map_set_list_all split: option.splits)
qed

lemma findCounters_Some:
  assumes "format_data fs st fmt = Some (data, st')"
  shows "findCounters fs st nm minScore fmt =
     Inr (case map_get data (toLowerCase nm) of
            None \<Rightarrow> []
          | Some threat \<Rightarrow>
              js_sort (\<lambda>a b. js_sub (cs_score b) (cs_score a))
                (map (\<lambda>c. \<lparr>cs_pokemon = cc_name c, cs_score = cc_score c\<rparr>)
                   (filter (\<lambda>c. js_ge (cc_score c) (Some minScore)) (checksAndCounters threat))),
          st')"
proof -
  note e = ensure_format_data_Some[OF assms]
  have e2: "ensureFormatLoaded fs st' fmt = Inr st'"
    using e by (simp add: ensure_loaded)
  show ?thesis
    using e by (simp add: findCounters_def getPokemon_def e2 split: option.splits)
qed

text \<open>
  Claim C1, as the code has it.  Every query method first makes sure the format is
  loaded.  When the format is not loaded and its file cannot be read, every query
  method raises the error of the failed read.  In every other case no query method
  raises: it works on the cached map, or on the map parsed from the file, and a name
  absent from that map gives the absent result of \<^verbatim>\<open>getPokemon\<close> and the empty list of
  \<^verbatim>\<open>findCounters\<close>.  For \<^verbatim>\<open>analyzeCoverage\<close> and \<^verbatim>\<open>generateTeamReport\<close>, whose analysis
  throws on some profile maps, this rests on what the cache holds: profile maps with
  lowercase move names, as the parser returns them.  A new module has such a cache, and
  \<^verbatim>\<open>loadFormat\<close>, \<^verbatim>\<open>clearCache\<close> and every query method keep it so.
\<close>

theorem C1_query_methods:
  "(format_data fs st fmt = None \<longleftrightarrow>
      \<not> map_has (dataCache st) fmt \<and> fs (formatPath st fmt) = None)
   \<and> (format_data fs st fmt = None \<longrightarrow>
        getPokemon fs st nm fmt = Inl (FileUnavailable (formatPath st fmt))
      \<and> getAllPokemon fs st fmt = Inl (FileUnavailable (formatPath st fmt))
      \<and> SM_getTopPokemon fs st n fmt = Inl (FileUnavailable (formatPath st fmt))
      \<and> findPokemonWithMove fs st mv minPct fmt = Inl (FileUnavailable (formatPath st fmt))
      \<and> findCounters fs st nm minScore fmt = Inl (FileUnavailable (formatPath st fmt))
      \<and> SM_calculateTeamSynergy fs st team fmt = Threw (FileUnavailable (formatPath st fmt))
      \<and> SM_suggestTeammates fs st team n fmt = Threw (FileUnavailable (formatPath st fmt))
      \<and> SM_analyzeTeamWeaknesses fs st team fmt = Threw (FileUnavailable (formatPath st fmt))
      \<and> SM_findBlindSpots fs st team fmt = Threw (FileUnavailable (formatPath st fmt))
      \<and> SM_analyzeCoverage fs st team fmt = Threw (FileUnavailable (formatPath st fmt))
      \<and> SM_checkMoveRedundancy fs st team fmt = Threw (FileUnavailable (formatPath st fmt))
      \<and> SM_generateTeamReport fs st team fmt = Threw (FileUnavailable (formatPath st fmt)))
   \<and> (\<forall>data st'. format_data fs st fmt = Some (data, st') \<longrightarrow>
        getPokemon fs st nm fmt = Inr (map_get data (toLowerCase nm), st')
      \<and> getAllPokemon fs st fmt = Inr (map_values data, st')
      \<and> SM_getTopPokemon fs st n fmt = Inr (getTopPokemon data n, st')
      \<and> (\<exists>r. findPokemonWithMove fs st mv minPct fmt = Inr (r, st'))
      \<and> (\<exists>r. findCounters fs st nm minScore fmt = Inr (r, st'))
      \<and> (map_get data (toLowerCase nm) = None \<longrightarrow>
            getPokemon fs st nm fmt = Inr (None, st')
          \<and> findCounters fs st nm minScore fmt = Inr ([], st'))
      \<and> SM_calculateTeamSynergy fs st team fmt = Returned (calculateTeamSynergy team data) st'
      \<and> SM_suggestTeammates fs st team n fmt = Returned (suggestTeammates team data n) st'
      \<and> SM_analyzeTeamWeaknesses fs st team fmt = Returned (analyzeTeamWeaknesses team data) st'
      \<and> SM_findBlindSpots fs st team fmt = Returned (findBlindSpots team data) st'
      \<and> SM_analyzeCoverage fs st team fmt =
          (case analyzeCoverage team data of
             Inl e \<Rightarrow> TypeError st' | Inr r \<Rightarrow> Returned r st')
      \<and> SM_checkMoveRedundancy fs st team fmt = Returned (checkMoveRedundancy team data) st'
      \<and> SM_generateTeamReport fs st team fmt =
          (case generateTeamReport team data of
             Inl e \<Rightarrow> TypeError st' | Inr r \<Rightarrow> Returned r st')
      \<and> (parsed_cache st \<longrightarrow>
            parsed_cache st' \<and> lower_moves data
          \<and> (\<exists>r. analyzeCoverage team data = Inr r
                 \<and> SM_analyzeCoverage fs st team fmt = Returned r st')
          \<and> (\<exists>r. generateTeamReport team data = Inr r
                 \<and> SM_generateTeamReport fs st team fmt = Returned r st')))
   \<and> parsed_cache (newModule cwd dp)
   \<and> (parsed_cache st \<longrightarrow>
         parsed_cache (clearCache st fo)
       \<and> (\<forall>st1. loadFormat fs st fmt opts = Inr st1 \<longrightarrow> parsed_cache st1))"
proof (intro conjI impI allI)
  show "format_data fs st fmt = None \<longleftrightarrow>
      \<not> map_has (dataCache st) fmt \<and> fs (formatPath st fmt) = None"
    by (auto simp: format_data_def map_has_get split: option.splits)
next
  assume n: "format_data fs st fmt = None"
  note e = ensure_format_data_None[OF n]
  show "getPokemon fs st nm fmt = Inl (FileUnavailable (formatPath st fmt))"
    by (simp add: getPokemon_def e)
  show "getAllPokemon fs st fmt = Inl (FileUnavailable (formatPath st fmt))"
    by (simp add: getAllPokemon_def e)
  show "SM_getTopPokemon fs st n fmt = Inl (FileUnavailable (formatPath st fmt))"
    by (simp add: SM_getTopPokemon_def e)
  show "findPokemonWithMove fs st mv minPct fmt = Inl (FileUnavailable (formatPath st fmt))"
    by (simp add: findPokemonWithMove_def e)
  show "findCounters fs st nm minScore fmt = Inl (FileUnavailable (formatPath st fmt))"
    by (simp add: findCounters_def e)
  show "SM_calculateTeamSynergy fs st team fmt = Threw (FileUnavailable (formatPath st fmt))"
    by (simp add: SM_calculateTeamSynergy_def with_format_None[OF n])
  show "SM_suggestTeammates fs st team n fmt = Threw (FileUnavailable (formatPath st fmt))"
    by (simp add: SM_suggestTeammates_def with_format_None[OF n])
  show "SM_analyzeTeamWeaknesses fs st team fmt = Threw (FileUnavailable (formatPath st fmt))"
    by (simp add: SM_analyzeTeamWeaknesses_def with_format_None[OF n])
  show "SM_findBlindSpots fs st team fmt = Threw (FileUnavailable (formatPath st fmt))"
    by (simp add: SM_findBlindSpots_def with_format_None[OF n])
  show "SM_analyzeCoverage fs st team fmt = Threw (FileUnavailable (formatPath st fmt))"
    by (simp add: SM_analyzeCoverage_def with_format_None[OF n])
  show "SM_checkMoveRedundancy fs st team fmt = Threw (FileUnavailable (formatPath st fmt))"
    by (simp add: SM_checkMoveRedundancy_def with_format_None[OF n])
  show "SM_generateTeamReport fs st team fmt = Threw (FileUnavailable (formatPath st fmt))"
    by (simp add: SM_generateTeamReport_def with_format_None[OF n])
next
  fix data st' assume s: "format_data fs st fmt = Some (data, st')"
  note e = ensure_format_data_Some[OF s]
  show gp: "getPokemon fs st nm fmt = Inr (map_get data (toLowerCase nm), st')"
    using e by (simp add: getPokemon_def)
  show "getAllPokemon fs st fmt = Inr (map_values data, st')"
    using e by (simp add: getAllPokemon_def)
  show "SM_getTopPokemon fs st n fmt = Inr (getTopPokemon data n, st')"
    using e by (simp add: SM_getTopPokemon_def)
  show "\<exists>r. findPokemonWithMove fs st mv minPct fmt = Inr (r, st')"
    using e by (simp add: findPokemonWithMove_def)
  show "\<exists>r. findCounters fs st nm minScore fmt = Inr (r, st')"
    by (simp add: findCounters_Some[OF s])
  show "SM_calculateTeamSynergy fs st team fmt = Returned (calculateTeamSynergy team data) st'"
    by (simp add: SM_calculateTeamSynergy_def with_format_Some[OF s])
  show "SM_suggestTeammates fs st team n fmt = Returned (suggestTeammates team data n) st'"
    by (simp add: SM_suggestTeammates_def with_format_Some[OF s])
  show "SM_analyzeTeamWeaknesses fs st team fmt = Returned (analyzeTeamWeaknesses team data) st'"
    by (simp add: SM_analyzeTeamWeaknesses_def with_format_Some[OF s])
  show "SM_findBlindSpots fs st team fmt = Returned (findBlindSpots team data) st'"
    by (simp add: SM_findBlindSpots_def with_format_Some[OF s])
  show ac: "SM_analyzeCoverage fs st team fmt =
          (case analyzeCoverage team data of
             Inl e \<Rightarrow> TypeError st' | Inr r \<Rightarrow> Returned r st')"
    by (simp add: SM_analyzeCoverage_def with_format_Some[OF s])
  show "SM_checkMoveRedundancy fs st team fmt = Returned (checkMoveRedundancy team data) st'"
    by (simp add: SM_checkMoveRedundancy_def with_format_Some[OF s])
  show tr: "SM_generateTeamReport fs st team fmt =
          (case generateTeamReport team data of
             Inl e \<Rightarrow> TypeError st' | Inr r \<Rightarrow> Returned r st')"
    by (simp add: SM_generateTeamReport_def with_format_Some[OF s])
  {
    assume a: "map_get data (toLowerCase nm) = None"
    show "getPokemon fs st nm fmt = Inr (None, st')" using gp a by simp
    show "findCounters fs st nm minScore fmt = Inr ([], st')"
      by (simp add: findCounters_Some[OF s] a)
  }
  assume pc: "parsed_cache st"
  show "parsed_cache st'" using s pc by (rule format_data_parsed)
  show low: "lower_moves data" using s pc by (rule format_data_parsed)
  from lower_returns[OF low] obtain r where r: "analyzeCoverage team data = Inr r" ..
  then show "\<exists>r. analyzeCoverage team data = Inr r
                 \<and> SM_analyzeCoverage fs st team fmt = Returned r st'"
    using ac by simp
  from lower_report[OF low] obtain r' where r': "generateTeamReport team data = Inr r'" ..
  then show "\<exists>r. generateTeamReport team data = Inr r
                 \<and> SM_generateTeamReport fs st team fmt = Returned r st'"
    using tr by simp
next
  show "parsed_cache (newModule cwd dp)" by (rule newModule_parsed)
next
  assume pc: "parsed_cache st"
  then show "parsed_cache (clearCache st fo)" by (rule clearCache_parsed)
  show "parsed_cache st1" if "loadFormat fs st fmt opts = Inr st1" for st1
    using pc that by (rule loadFormat_parsed)
qed

theorem C1_witness:
  "format_data no_files loaded_module ''gen2ou-1760'' = Some (three_profiles, loaded_module)
   \<and> map_get three_profiles (toLowerCase ''Pikachu'') = None
   \<and> getPokemon no_files loaded_module ''Pikachu'' ''gen2ou-1760'' = Inr (None, loaded_module)
   \<and> findCounters no_files loaded_module ''Pikachu'' 1 ''gen2ou-1760'' = Inr ([], loaded_module)
   \<and> parsed_cache loaded_module
   \<and> (\<exists>r. SM_analyzeCoverage no_files loaded_module [''Pikachu''] ''gen2ou-1760'' =
            Returned r loaded_module)
   \<and> (\<exists>r. SM_generateTeamReport no_files loaded_module [''Pikachu''] ''gen2ou-1760'' =
            Returned r loaded_module)
   \<and> format_data no_files fresh_module ''gen2ou-1760'' = None
   \<and> SM_generateTeamReport no_files fresh_module [''Pikachu''] ''gen2ou-1760'' =
       Threw (FileUnavailable ''./data/gen2ou-1760.txt'')"
proof -
  have f: "format_data no_files loaded_module ''gen2ou-1760'' = Some (three_profiles, loaded_module)"
    by (simp add: format_data_def loaded_module_def map_get_def)
  have a: "map_get three_profiles (toLowerCase ''Pikachu'') = None"
    by (simp add: three_profiles_def map_get_def lower_eval)
  have pc: "parsed_cache loaded_module"
    by (simp add: parsed_cache_def loaded_module_def three_profiles_def lower_moves_def
        lower_keys_def initialData_def)
  have n: "format_data no_files fresh_module ''gen2ou-1760'' = None"
    by (simp add: format_data_def fresh_module_def newModule_def no_files_def map_get_def)
  have p: "formatPath fresh_module ''gen2ou-1760'' = ''./data/gen2ou-1760.txt''"
    by (simp add: formatPath_def fresh_module_def newModule_def path_join_def)
  note T1 = C1_query_methods[of no_files loaded_module "''gen2ou-1760''" "''Pikachu''" 0
      "''surf''" 0 1 "[''Pikachu'']" "''.''" None None None,
      THEN conjunct2, THEN conjunct2, THEN conjunct1, THEN spec, THEN spec, THEN mp, OF f]
  note T2 = C1_query_methods[of no_files fresh_module "''gen2ou-1760''" "''Pikachu''" 0
      "''surf''" 0 1 "[''Pikachu'']" "''.''" None None None,
      THEN conjunct2, THEN conjunct1, THEN mp, OF n]
  have g: "getPokemon no_files loaded_module ''Pikachu'' ''gen2ou-1760'' = Inr (None, loaded_module)"
    and c: "findCounters no_files loaded_module ''Pikachu'' 1 ''gen2ou-1760'' = Inr ([], loaded_module)"
    using T1 a by blast+
  have ac: "\<exists>r. SM_analyzeCoverage no_files loaded_module [''Pikachu''] ''gen2ou-1760'' =
            Returned r loaded_module"
    and tr: "\<exists>r. SM_generateTeamReport no_files loaded_module [''Pikachu''] ''gen2ou-1760'' =
            Returned r loaded_module"
    using T1 pc by blast+
  have r: "SM_generateTeamReport no_files fresh_module [''Pikachu''] ''gen2ou-1760'' =
       Threw (FileUnavailable ''./data/gen2ou-1760.txt'')"
    using T2 unfolding p by blast
  show ?thesis by (intro conjI f a g c pc ac tr n r)
qed

text \<open>
  Claim C1 as stated fails for a format that is not loaded and whose file cannot be
  read: \<^verbatim>\<open>getPokemon\<close> raises, while for the same format loaded without the name it
  returns the absent result.
\<close>

theorem C1_counterexample:
  "getPokemon no_files fresh_module ''Pikachu'' ''gen2ou-1760'' =
     Inl (FileUnavailable ''./data/gen2ou-1760.txt'')
   \<and> getPokemon no_files (fresh_module\<lparr>dataCache := [(''gen2ou-1760'', [])]\<rparr>)
         ''Pikachu'' ''gen2ou-1760'' =
     Inr (None, fresh_module\<lparr>dataCache := [(''gen2ou-1760'', [])]\<rparr>)"
  by (simp add: getPokemon_def ensureFormatLoaded_def loadFormat_def parseUsageFile_def
      fresh_module_def newModule_def no_files_def path_join_def map_has_def map_get_def)

section \<open>Verification: report aggregator\<close>

text \<open>A report exists exactly when the coverage analysis returns.\<close>

lemma generateTeamReport_raises:
  "generateTeamReport team ud = Inl NotIterable \<longleftrightarrow>
     list_ex raises_on (team_move_types ud (map toLowerCase team))"
proof (cases "analyzeCoverage (map toLowerCase team) ud")
  case (Inl x)
  then show ?thesis
    using analyzeCoverage_raises[of "map toLowerCase team" ud]
    by (simp add: generateTeamReport_def Let_def type_error_eq[of x] toLowerCase_idem comp_def)
next
  case (Inr r)
  then show ?thesis
    using analyzeCoverage_raises[of "map toLowerCase team" ud]
    by (simp add: generateTeamReport_def Let_def toLowerCase_idem comp_def)
qed


end
